theory Spec2Isabelle
  imports Main "HOL-Library.Sublist"
begin

section \<open>Python strings\<close>

text \<open>
  A Python \<open>str\<close> is a sequence of Unicode code points, so it is modelled as a list of
  code points (\<open>nat\<close>): \<open>s[:50]\<close> is \<open>take 50 s\<close> and \<open>len\<close> is \<open>length\<close>.
  \<open>lit\<close> turns an ASCII literal into such a list.
\<close>

type_synonym pystr = "nat list"

definition lit :: "string \<Rightarrow> pystr" where
  "lit s = map of_char s"

definition nl :: pystr where
  "nl = [10]"

definition check_mark :: pystr where
  "check_mark = [10003]"

definition cross_mark :: pystr where
  "cross_mark = [10007]"

text \<open>\<open>str.isspace\<close> of one code point, as CPython's whitespace table has it.\<close>

definition py_isspace :: "nat \<Rightarrow> bool" where
  "py_isspace c =
     ((9 \<le> c \<and> c \<le> 13) \<or> (28 \<le> c \<and> c \<le> 32) \<or> c = 133 \<or> c = 160 \<or> c = 5760
      \<or> (8192 \<le> c \<and> c \<le> 8202) \<or> c = 8232 \<or> c = 8233 \<or> c = 8239 \<or> c = 8287
      \<or> c = 12288)"

definition py_strip :: "pystr \<Rightarrow> pystr" where
  "py_strip s = rev (dropWhile py_isspace (rev (dropWhile py_isspace s)))"

text \<open>\<open>sub in s\<close> for two strings.\<close>

fun contains :: "pystr \<Rightarrow> pystr \<Rightarrow> bool" where
  "contains sub [] = (sub = [])"
| "contains sub (c # cs) = (prefix sub (c # cs) \<or> contains sub cs)"

text \<open>
  \<open>s.split(sep)\<close>: left to right, non-overlapping. Every call site passes a non-empty
  literal separator (Python raises \<open>ValueError\<close> on an empty one).
\<close>

fun py_split_aux :: "pystr \<Rightarrow> pystr \<Rightarrow> pystr \<Rightarrow> pystr list" where
  "py_split_aux sep cur [] = [cur]"
| "py_split_aux sep cur (c # cs) =
     (if prefix sep (c # cs) then cur # py_split_aux sep [] (drop (length sep - 1) cs)
      else py_split_aux sep (cur @ [c]) cs)"

definition py_split :: "pystr \<Rightarrow> pystr \<Rightarrow> pystr list" where
  "py_split sep s = py_split_aux sep [] s"

text \<open>\<open>sep.join(xs)\<close>.\<close>

fun py_join :: "pystr \<Rightarrow> pystr list \<Rightarrow> pystr" where
  "py_join sep [] = []"
| "py_join sep [x] = x"
| "py_join sep (x # y # ys) = x @ sep @ py_join sep (y # ys)"

text \<open>Decimal text of a non-negative integer, as an f-string prints \<open>len(xs)\<close>.\<close>

function dec :: "nat \<Rightarrow> pystr" where
  "dec n = (if n < 10 then [48 + n] else dec (n div 10) @ [48 + n mod 10])"
  by pat_completeness auto
termination
  by (relation "measure id") auto

text \<open>
  \<open>[e.strip() for e in s.split(",") if e.strip()]\<close>, the parser of every comma-separated
  argument of the tool.
\<close>

definition parse_list :: "pystr \<Rightarrow> pystr list" where
  "parse_list s = map py_strip (filter (\<lambda>e. py_strip e \<noteq> []) (py_split (lit '','') s))"

section \<open>Values, exceptions, configuration and the outside world\<close>

text \<open>
  What \<open>json.loads\<close> can return. A JSON object becomes a \<open>dict\<close>, kept as an association
  list whose keys are distinct (\<open>json.loads\<close> keeps one entry per key); numbers keep
  their text, since the program never computes with them.
\<close>

datatype json =
    JNull
  | JBool bool
  | JNumber pystr
  | JString pystr
  | JArray "json list"
  | JObject "(pystr \<times> json) list"

text \<open>An exception with the text \<open>str(e)\<close> gives.\<close>

datatype exn =
    ValueError pystr
  | TypeError pystr
  | IndexError pystr
  | KeyError pystr
  | LibraryError pystr

fun str_exn :: "exn \<Rightarrow> pystr" where
  "str_exn (ValueError m) = m"
| "str_exn (TypeError m) = m"
| "str_exn (IndexError m) = m"
| "str_exn (KeyError m) = m"
| "str_exn (LibraryError m) = m"

text \<open>The module-level configuration read from the environment at import.\<close>

record config =
  GEMINI_API_KEY :: "pystr option"
  SMTP_SERVER :: pystr
  SMTP_PORT :: int
  SMTP_EMAIL :: "pystr option"
  SMTP_PASSWORD :: "pystr option"
  SENDER_NAME :: pystr

text \<open>Truth value of an optional string (\<open>None\<close> and \<open>""\<close> are false).\<close>

fun truthy :: "pystr option \<Rightarrow> bool" where
  "truthy None = False"
| "truthy (Some s) = (s \<noteq> [])"

text \<open>Truth value of an optional list (\<open>None\<close> and \<open>[]\<close> are false).\<close>

fun truthy_list :: "'a list option \<Rightarrow> bool" where
  "truthy_list None = False"
| "truthy_list (Some xs) = (xs \<noteq> [])"

fun items :: "'a list option \<Rightarrow> 'a list" where
  "items None = []"
| "items (Some xs) = xs"

text \<open>How an f-string prints an optional string.\<close>

fun fmt_opt :: "pystr option \<Rightarrow> pystr" where
  "fmt_opt None = lit ''None''"
| "fmt_opt (Some s) = s"

text \<open>A MIME part of the outgoing message and the message itself.\<close>

datatype mime_part =
    TextPart pystr pystr
  | FilePart pystr pystr "nat list" pystr

record message =
  headers :: "(pystr \<times> json) list"
  parts :: "mime_part list"

text \<open>
  Every call that leaves the process is recorded, in order, in a log of events.
  \<open>SendEmailCall\<close> marks the entry into \<open>send_email\<close> (one send attempt);
  \<open>GenerateContent\<close> carries the model name and the prompt; \<open>SmtpSendmail\<close> is the
  call \<open>server.sendmail(SMTP_EMAIL, recipients, msg.as_string())\<close>, made once
  \<open>msg.as_string()\<close> has returned, and carries the message that was serialised.
\<close>

datatype event =
    GenerateContent pystr pystr
  | SendEmailCall pystr
  | IsFile pystr
  | ReadFile pystr
  | SmtpConnect pystr int
  | SmtpStartTLS
  | SmtpLogin "pystr option" "pystr option"
  | SmtpSendmail "pystr option" "pystr list" message
  | SmtpQuit

text \<open>
  The interpreter, the libraries and the outside world, as parameters. The outside
  answers a request from the log that ends with this request, so an answer may depend on
  everything that happened before.
  \<^item> \<open>generate_content\<close>: \<open>model.generate_content(prompt)\<close> followed by \<open>response.text\<close>;
  \<^item> \<open>json_loads\<close>: \<open>json.loads\<close>;
  \<^item> \<open>py_str\<close>: how an f-string prints a value that is not a string;
  \<^item> \<open>subscript_msg\<close>: the text of the \<open>TypeError\<close> raised when a value that is not a
    \<open>dict\<close> is subscripted with a string;
  \<^item> \<open>path_isabs\<close>, \<open>path_join\<close>, \<open>path_basename\<close>: \<open>os.path\<close> of the platform;
    \<open>module_dir\<close>: \<open>os.path.dirname(__file__)\<close>;
  \<^item> \<open>isfile\<close>, \<open>read_file\<close>: \<open>os.path.isfile\<close> and \<open>open(p, 'rb').read()\<close>;
  \<^item> \<open>guess_type\<close>: \<open>mimetypes.guess_type\<close>;
  \<^item> \<open>mime_text\<close>: the exception \<open>MIMEText(body, 'plain')\<close> raises, if any (a body
    that cannot be encoded, such as one with a lone surrogate);
  \<^item> \<open>as_string\<close>: the exception \<open>msg.as_string()\<close> raises, if any (a header value
    that is not a string, or one with an embedded line break);
  \<^item> \<open>list_of_set\<close>: the order in which \<open>list(set(xs))\<close> enumerates;
  \<^item> \<open>smtp_*\<close>: the steps of one \<open>smtplib.SMTP\<close> session, \<open>None\<close> when a step succeeds.
\<close>

record world =
  generate_content :: "event list \<Rightarrow> exn + pystr"
  json_loads :: "pystr \<Rightarrow> exn + json"
  py_str :: "json \<Rightarrow> pystr"
  subscript_msg :: "json \<Rightarrow> pystr"
  path_isabs :: "pystr \<Rightarrow> bool"
  path_join :: "pystr \<Rightarrow> pystr \<Rightarrow> pystr"
  path_basename :: "pystr \<Rightarrow> pystr"
  module_dir :: pystr
  isfile :: "event list \<Rightarrow> bool"
  read_file :: "event list \<Rightarrow> exn + nat list"
  guess_type :: "pystr \<Rightarrow> pystr option \<times> pystr option"
  mime_text :: "pystr \<Rightarrow> exn option"
  as_string :: "message \<Rightarrow> exn option"
  list_of_set :: "pystr list \<Rightarrow> pystr list"
  smtp_connect :: "event list \<Rightarrow> exn option"
  smtp_starttls :: "event list \<Rightarrow> exn option"
  smtp_login :: "event list \<Rightarrow> exn option"
  smtp_sendmail :: "event list \<Rightarrow> exn option"
  smtp_quit :: "event list \<Rightarrow> exn option"

text \<open>How an f-string prints a value: a string as it is.\<close>

fun fmt :: "world \<Rightarrow> json \<Rightarrow> pystr" where
  "fmt w (JString s) = s"
| "fmt w v = py_str w v"

section \<open>Content enhancer (\<open>enhance_email_with_ai\<close>)\<close>

definition sq :: pystr where
  "sq = [39]"

definition greeting_instruction :: "pystr \<Rightarrow> pystr" where
  "greeting_instruction recipient_name =
     (if recipient_name \<noteq> [] then
        nl @ lit ''Recipient name: '' @ recipient_name @ nl
        @ lit ''Use a personalized greeting with their name (e.g., '' @ sq @ lit ''Dear ''
        @ recipient_name @ lit '','' @ sq @ lit '' or '' @ sq @ lit ''Hi '' @ recipient_name
        @ lit '','' @ sq @ lit '')''
      else [])"

definition prompt_intro :: pystr where
  "prompt_intro =
     lit ''You are a professional email writing assistant. Given a short main idea, create a polished, concise, and natural-sounding email.''
     @ nl @ nl @ lit ''Main idea: ''"

definition prompt_rest :: pystr where
  \<open>prompt_rest =
     nl @ nl @ lit ''Generate a complete professional email with:'' @ nl
     @ lit ''1. A clear, specific subject line (no "Subject:" prefix)'' @ nl
     @ lit ''2. Appropriate greeting'' @ nl
     @ lit ''3. Well-structured body (2-4 sentences, clear and concise)'' @ nl
     @ lit ''4. Professional closing'' @ nl @ nl
     @ lit ''Return ONLY a valid JSON object with these exact keys: "subject", "greeting", "body", "closing"''
     @ nl @ nl @ lit ''Example format:'' @ nl
     @ lit ''{"subject": "Project Update - Q4 Results", "greeting": "Hello,", "body": "I wanted to share some exciting news about our Q4 performance. Our team exceeded targets by 15% and secured three new major clients. The detailed report is attached for your review.", "closing": "Best regards"}''
     @ nl @ nl @ lit ''Now generate the email:''\<close>

definition build_prompt :: "pystr \<Rightarrow> pystr \<Rightarrow> pystr \<Rightarrow> pystr" where
  "build_prompt main_idea tone recipient_name =
     prompt_intro @ main_idea @ nl @ lit ''Tone: '' @ tone
     @ greeting_instruction recipient_name @ prompt_rest"

text \<open>\<open>xs[i]\<close> for a non-negative literal index.\<close>

definition index :: "'a list \<Rightarrow> nat \<Rightarrow> exn + 'a" where
  "index xs i =
     (if i < length xs then Inr (xs ! i) else Inl (IndexError (lit ''list index out of range'')))"

definition fence :: pystr where
  "fence = lit ''```''"

definition fence_json :: pystr where
  "fence_json = lit ''```json''"

text \<open>The text between the first fence and the next one, as the source extracts it.\<close>

definition between_fences :: "pystr \<Rightarrow> pystr \<Rightarrow> exn + pystr" where
  "between_fences opening text =
     (case index (py_split opening text) 1 of
        Inl e \<Rightarrow> Inl e
      | Inr rest \<Rightarrow>
          (case index (py_split fence rest) 0 of
             Inl e \<Rightarrow> Inl e
           | Inr inner \<Rightarrow> Inr (py_strip inner)))"

definition extract_json :: "pystr \<Rightarrow> exn + pystr" where
  "extract_json text =
     (if contains fence_json text then between_fences fence_json text
      else if contains fence text then between_fences fence text
      else Inr text)"

definition required_keys :: "pystr list" where
  "required_keys = [lit ''subject'', lit ''greeting'', lit ''body'', lit ''closing'']"

text \<open>
  \<open>key in result\<close>: a key of a dict, an element of a list, a substring of a string;
  any other value is not iterable (the text of that \<open>TypeError\<close> is never read: the
  \<open>except\<close> of the enhancer drops the exception).
\<close>

fun py_in :: "pystr \<Rightarrow> json \<Rightarrow> exn + bool" where
  "py_in k (JObject kvs) = Inr (k \<in> set (map fst kvs))"
| "py_in k (JArray xs) = Inr (JString k \<in> set xs)"
| "py_in k (JString s) = Inr (contains k s)"
| "py_in k v = Inl (TypeError (lit ''argument is not iterable''))"

text \<open>\<open>all(key in result for key in keys)\<close>, which stops at the first miss.\<close>

fun all_keys_in :: "pystr list \<Rightarrow> json \<Rightarrow> exn + bool" where
  "all_keys_in [] r = Inr True"
| "all_keys_in (k # ks) r =
     (case py_in k r of
        Inl e \<Rightarrow> Inl e
      | Inr b \<Rightarrow> if b then all_keys_in ks r else Inr False)"

text \<open>From the text of the response to the validated result: the rest of the \<open>try\<close> block.\<close>

definition parse_response :: "world \<Rightarrow> pystr \<Rightarrow> exn + json" where
  "parse_response w raw =
     (case extract_json (py_strip raw) of
        Inl e \<Rightarrow> Inl e
      | Inr text \<Rightarrow>
          (case json_loads w text of
             Inl e \<Rightarrow> Inl e
           | Inr result \<Rightarrow>
               (case all_keys_in required_keys result of
                  Inl e \<Rightarrow> Inl e
                | Inr b \<Rightarrow>
                    if b then Inr result
                    else Inl (ValueError (lit ''Missing required keys in AI response'')))))"

text \<open>The \<open>try\<close> block of \<open>server.py\<close>: the result or the exception, and the log.\<close>

definition enhance_try ::
  "config \<Rightarrow> world \<Rightarrow> event list \<Rightarrow> pystr \<Rightarrow> pystr \<Rightarrow> pystr \<Rightarrow> (exn + json) \<times> event list" where
  "enhance_try cfg w log main_idea tone recipient_name =
     (if \<not> truthy (GEMINI_API_KEY cfg) then
        (Inl (ValueError (lit ''Gemini API key not configured'')), log)
      else
        (let prompt = build_prompt main_idea tone recipient_name;
             log' = log @ [GenerateContent (lit ''gemini-2.5-flash'') prompt]
         in (case generate_content w log' of
               Inl e \<Rightarrow> Inl e
             | Inr raw \<Rightarrow> parse_response w raw,
             log')))"

text \<open>The \<open>except\<close> branch: built from the idea alone.\<close>

definition fallback_email :: "pystr \<Rightarrow> json" where
  "fallback_email main_idea =
     JObject
       [(lit ''subject'', JString (lit ''Update: '' @ take 50 main_idea)),
        (lit ''greeting'', JString (lit ''Hello,'')),
        (lit ''body'',
           JString (lit ''I wanted to reach out regarding: '' @ main_idea @ nl @ nl
                    @ lit ''Please let me know if you have any questions.'')),
        (lit ''closing'', JString (lit ''Best regards''))]"

definition enhance_email_with_ai ::
  "config \<Rightarrow> world \<Rightarrow> event list \<Rightarrow> pystr \<Rightarrow> pystr \<Rightarrow> pystr \<Rightarrow> json \<times> event list" where
  "enhance_email_with_ai cfg w log main_idea tone recipient_name =
     (case enhance_try cfg w log main_idea tone recipient_name of
        (Inl e, log') \<Rightarrow> (fallback_email main_idea, log')
      | (Inr result, log') \<Rightarrow> (result, log'))"

text \<open>
  \<open>main.py\<close>: no recipient name, no test of the API key, another model name.
\<close>

definition build_prompt_main :: "pystr \<Rightarrow> pystr \<Rightarrow> pystr" where
  "build_prompt_main main_idea tone =
     prompt_intro @ main_idea @ nl @ lit ''Tone: '' @ tone @ prompt_rest"

definition enhance_try_main ::
  "world \<Rightarrow> event list \<Rightarrow> pystr \<Rightarrow> pystr \<Rightarrow> (exn + json) \<times> event list" where
  "enhance_try_main w log main_idea tone =
     (let prompt = build_prompt_main main_idea tone;
          log' = log @ [GenerateContent (lit ''gemini-1.5-flash'') prompt]
      in (case generate_content w log' of
            Inl e \<Rightarrow> Inl e
          | Inr raw \<Rightarrow> parse_response w raw,
          log'))"

definition enhance_email_with_ai_main ::
  "world \<Rightarrow> event list \<Rightarrow> pystr \<Rightarrow> pystr \<Rightarrow> json \<times> event list" where
  "enhance_email_with_ai_main w log main_idea tone =
     (case enhance_try_main w log main_idea tone of
        (Inl e, log') \<Rightarrow> (fallback_email main_idea, log')
      | (Inr result, log') \<Rightarrow> (result, log'))"

section \<open>Message builder and delivery channel (\<open>send_email\<close>)\<close>

text \<open>The dict \<open>send_email\<close> returns; \<open>None\<close> is a key that is absent.\<close>

record outcome =
  status :: pystr
  message :: pystr
  attached :: "pystr list option"
  missing :: "pystr list option"

text \<open>
  \<open>MIMEMultipart()\<close> starts with the two headers the library sets; the source adds
  \<open>From\<close>, \<open>To\<close>, \<open>Subject\<close> and, for a non-empty \<open>cc\<close>, \<open>Cc\<close>.
\<close>

definition build_headers :: "config \<Rightarrow> pystr \<Rightarrow> json \<Rightarrow> pystr list option \<Rightarrow> (pystr \<times> json) list" where
  "build_headers cfg to_email subject cc =
     [(lit ''Content-Type'', JString (lit ''multipart/mixed'')),
      (lit ''MIME-Version'', JString (lit ''1.0'')),
      (lit ''From'', JString (SENDER_NAME cfg @ lit '' <'' @ fmt_opt (SMTP_EMAIL cfg) @ lit ''>'')),
      (lit ''To'', JString to_email),
      (lit ''Subject'', subject)]
     @ (if truthy_list cc then [(lit ''Cc'', JString (py_join (lit '', '') (items cc)))] else [])"

text \<open>The MIME type of a file: the guess, or the generic binary type.\<close>

definition content_type :: "world \<Rightarrow> pystr \<Rightarrow> pystr" where
  "content_type w file_path =
     (case guess_type w file_path of
        (Some ctype, None) \<Rightarrow> ctype
      | _ \<Rightarrow> lit ''application/octet-stream'')"

text \<open>\<open>maintype, subtype = ctype.split('/', 1)\<close>.\<close>

definition split_ctype :: "pystr \<Rightarrow> exn + pystr \<times> pystr" where
  "split_ctype ctype =
     (if 47 \<in> set ctype then
        Inr (takeWhile (\<lambda>c. c \<noteq> 47) ctype, tl (dropWhile (\<lambda>c. c \<noteq> 47) ctype))
      else Inl (ValueError (lit ''not enough values to unpack (expected 2, got 1)'')))"

text \<open>
  The loop over the attachments. Its state is the parts of the message so far,
  \<open>attached_files\<close> and \<open>missing_files\<close>.
\<close>

type_synonym attach_state = "mime_part list \<times> pystr list \<times> pystr list"

fun attach_files ::
  "world \<Rightarrow> pystr list \<Rightarrow> attach_state \<Rightarrow> event list \<Rightarrow> (exn + attach_state) \<times> event list" where
  "attach_files w [] st log = (Inr st, log)"
| "attach_files w (file_path # rest) (ps, attached_files, missing_files) log =
     (let log1 = log @ [IsFile file_path] in
      if \<not> isfile w log1 then
        attach_files w rest (ps, attached_files, missing_files @ [file_path]) log1
      else
        (case split_ctype (content_type w file_path) of
           Inl e \<Rightarrow> (Inl e, log1)
         | Inr (maintype, subtype) \<Rightarrow>
             (let log2 = log1 @ [ReadFile file_path] in
              case read_file w log2 of
                Inl e \<Rightarrow> (Inl e, log2)
              | Inr data \<Rightarrow>
                  attach_files w rest
                    (ps @ [FilePart maintype subtype data (path_basename w file_path)],
                     attached_files @ [path_basename w file_path],
                     missing_files)
                    log2)))"

text \<open>The envelope: \<open>[to_email]\<close>, extended by \<open>cc\<close> and \<open>bcc\<close> when they are non-empty.\<close>

definition envelope :: "pystr \<Rightarrow> pystr list option \<Rightarrow> pystr list option \<Rightarrow> pystr list" where
  "envelope to_email cc bcc =
     [to_email] @ (if truthy_list cc then items cc else [])
     @ (if truthy_list bcc then items bcc else [])"

text \<open>
  The body of the \<open>with\<close> block: the exception it raises, if any. The arguments of
  \<open>sendmail\<close> are evaluated before the call, so a failing \<open>msg.as_string()\<close> leaves the
  block without a \<open>sendmail\<close>.
\<close>

definition smtp_body ::
  "config \<Rightarrow> world \<Rightarrow> pystr \<Rightarrow> pystr list option \<Rightarrow> pystr list option \<Rightarrow> message \<Rightarrow> event list
   \<Rightarrow> exn option \<times> event list" where
  "smtp_body cfg w to_email cc bcc msg log =
     (let log1 = log @ [SmtpStartTLS] in
      case smtp_starttls w log1 of
        Some e \<Rightarrow> (Some e, log1)
      | None \<Rightarrow>
          (let log2 = log1 @ [SmtpLogin (SMTP_EMAIL cfg) (SMTP_PASSWORD cfg)] in
           case smtp_login w log2 of
             Some e \<Rightarrow> (Some e, log2)
           | None \<Rightarrow>
               (case as_string w msg of
                  Some e \<Rightarrow> (Some e, log2)
                | None \<Rightarrow>
                    (let log3 = log2 @ [SmtpSendmail (SMTP_EMAIL cfg)
                                          (envelope to_email cc bcc) msg]
                     in (smtp_sendmail w log3, log3)))))"

text \<open>
  \<open>with smtplib.SMTP(...) as server\<close>: when the connection is made, the block runs and
  the exit of the block sends \<open>QUIT\<close>; an exception of the exit replaces one of the block.
\<close>

definition smtp_session ::
  "config \<Rightarrow> world \<Rightarrow> pystr \<Rightarrow> pystr list option \<Rightarrow> pystr list option \<Rightarrow> message \<Rightarrow> event list
   \<Rightarrow> exn option \<times> event list" where
  "smtp_session cfg w to_email cc bcc msg log =
     (let log1 = log @ [SmtpConnect (SMTP_SERVER cfg) (SMTP_PORT cfg)] in
      case smtp_connect w log1 of
        Some e \<Rightarrow> (Some e, log1)
      | None \<Rightarrow>
          (case smtp_body cfg w to_email cc bcc msg log1 of
             (r, log2) \<Rightarrow>
               (let log3 = log2 @ [SmtpQuit] in
                case smtp_quit w log3 of
                  Some e \<Rightarrow> (Some e, log3)
                | None \<Rightarrow> (r, log3))))"

text \<open>
  The world lets a session that starts at this log come to its \<open>sendmail\<close> call for
  this message: the connection, \<open>starttls\<close>, \<open>login\<close> and \<open>msg.as_string()\<close> raise
  nothing.
\<close>

definition reaches_sendmail :: "config \<Rightarrow> world \<Rightarrow> message \<Rightarrow> event list \<Rightarrow> bool" where
  "reaches_sendmail cfg w msg log =
     (let log1 = log @ [SmtpConnect (SMTP_SERVER cfg) (SMTP_PORT cfg)];
          log2 = log1 @ [SmtpStartTLS];
          log3 = log2 @ [SmtpLogin (SMTP_EMAIL cfg) (SMTP_PASSWORD cfg)]
      in smtp_connect w log1 = None \<and> smtp_starttls w log2 = None
         \<and> smtp_login w log3 = None \<and> as_string w msg = None)"

definition error_outcome :: "pystr \<Rightarrow> exn \<Rightarrow> outcome" where
  "error_outcome to_email e =
     \<lparr>status = lit ''error'',
      message = lit ''Failed to send to '' @ to_email @ lit '': '' @ str_exn e,
      attached = None, missing = None\<rparr>"

definition success_message :: "world \<Rightarrow> pystr \<Rightarrow> pystr list \<Rightarrow> pystr list \<Rightarrow> pystr" where
  "success_message w to_email attached_files missing_files =
     lit ''Email sent to '' @ to_email
     @ (if attached_files \<noteq> [] then
          lit '' (Attached: '' @ py_join (lit '', '') attached_files @ lit '')'' else [])
     @ (if missing_files \<noteq> [] then
          lit '' (Missing files: '' @ py_join (lit '', '') (map (path_basename w) missing_files)
          @ lit '')'' else [])"

definition send_email ::
  "config \<Rightarrow> world \<Rightarrow> pystr \<Rightarrow> json \<Rightarrow> pystr \<Rightarrow> pystr list option \<Rightarrow> pystr list option
   \<Rightarrow> pystr list option \<Rightarrow> event list \<Rightarrow> outcome \<times> event list" where
  "send_email cfg w to_email subject body cc bcc attachments log =
     (let log0 = log @ [SendEmailCall to_email];
          st0 = ([TextPart body (lit ''plain'')], [], [])
      in case mime_text w body of
           Some e \<Rightarrow> (error_outcome to_email e, log0)
         | None \<Rightarrow>
             (case (if truthy_list attachments
                    then attach_files w (items attachments) st0 log0
                    else (Inr st0, log0)) of
                (Inl e, log1) \<Rightarrow> (error_outcome to_email e, log1)
              | (Inr (ps, attached_files, missing_files), log1) \<Rightarrow>
                  (case smtp_session cfg w to_email cc bcc
                          \<lparr>headers = build_headers cfg to_email subject cc, parts = ps\<rparr>
                          log1 of
                     (Some e, log2) \<Rightarrow> (error_outcome to_email e, log2)
                   | (None, log2) \<Rightarrow>
                       (\<lparr>status = lit ''success'',
                         message = success_message w to_email attached_files missing_files,
                         attached = Some attached_files, missing = Some missing_files\<rparr>,
                        log2))))"

text \<open>\<open>main.py\<close>: no attachments, and a success carries only status and message.\<close>

definition send_email_main ::
  "config \<Rightarrow> world \<Rightarrow> pystr \<Rightarrow> json \<Rightarrow> pystr \<Rightarrow> pystr list option \<Rightarrow> pystr list option
   \<Rightarrow> event list \<Rightarrow> outcome \<times> event list" where
  "send_email_main cfg w to_email subject body cc bcc log =
     (let log0 = log @ [SendEmailCall to_email] in
      case mime_text w body of
        Some e \<Rightarrow> (error_outcome to_email e, log0)
      | None \<Rightarrow>
          (case smtp_session cfg w to_email cc bcc
                  \<lparr>headers = build_headers cfg to_email subject cc,
                   parts = [TextPart body (lit ''plain'')]\<rparr> log0 of
             (Some e, log1) \<Rightarrow> (error_outcome to_email e, log1)
           | (None, log1) \<Rightarrow>
               (\<lparr>status = lit ''success'', message = lit ''Email sent to '' @ to_email,
                 attached = None, missing = None\<rparr>, log1)))"

section \<open>Batch orchestrator (\<open>send_professional_email\<close>)\<close>

text \<open>\<open>while len(name_list) < len(recipient_list): name_list.append("")\<close>.\<close>

function pad_names :: "pystr list \<Rightarrow> nat \<Rightarrow> pystr list" where
  "pad_names name_list n =
     (if length name_list < n then pad_names (name_list @ [[]]) n else name_list)"
  by pat_completeness auto
termination
  by (relation "measure (\<lambda>(name_list, n). n - length name_list)") auto

text \<open>A relative attachment path is joined to the directory of the module.\<close>

definition resolve_path :: "world \<Rightarrow> pystr \<Rightarrow> pystr" where
  "resolve_path w path =
     (if \<not> path_isabs w path then path_join w (module_dir w) path else path)"

fun resolve_paths :: "world \<Rightarrow> pystr list \<Rightarrow> pystr list" where
  "resolve_paths w [] = []"
| "resolve_paths w (p # ps) =
     (let path = py_strip p in
      if path = [] then resolve_paths w ps else resolve_path w path # resolve_paths w ps)"

definition parse_attachments :: "world \<Rightarrow> pystr \<Rightarrow> pystr list option" where
  "parse_attachments w attachments =
     (let attachment_list =
            (if attachments \<noteq> [] then resolve_paths w (py_split (lit '','') attachments) else [])
      in if attachment_list \<noteq> [] then Some attachment_list else None)"

text \<open>\<open>parse_list(s) if s else None\<close>, for \<open>cc\<close> and \<open>bcc\<close>.\<close>

definition parse_opt_list :: "pystr \<Rightarrow> pystr list option" where
  "parse_opt_list s = (if s \<noteq> [] then Some (parse_list s) else None)"

text \<open>
  The directory in which \<open>save_temp_file\<close> stores an uploaded file, and the path it
  writes and returns for a file name.
\<close>

definition temp_dir :: "world \<Rightarrow> pystr" where
  "temp_dir w = path_join w (module_dir w) (lit ''temp_attachments'')"

definition save_temp_file_path :: "world \<Rightarrow> pystr \<Rightarrow> pystr" where
  "save_temp_file_path w filename = path_join w (temp_dir w) filename"

text \<open>\<open>enhanced[key]\<close>.\<close>

fun subscript :: "world \<Rightarrow> json \<Rightarrow> pystr \<Rightarrow> exn + json" where
  "subscript w (JObject kvs) k =
     (case map_of kvs k of Some v \<Rightarrow> Inr v | None \<Rightarrow> Inl (KeyError (sq @ k @ sq)))"
| "subscript w v k = Inl (TypeError (subscript_msg w v))"

text \<open>The four reads \<open>subject\<close>, \<open>greeting\<close>, \<open>body\<close>, \<open>closing\<close>, in this order.\<close>

definition enhanced_fields :: "world \<Rightarrow> json \<Rightarrow> exn + json \<times> json \<times> json \<times> json" where
  "enhanced_fields w enhanced =
     (case subscript w enhanced (lit ''subject'') of
        Inl e \<Rightarrow> Inl e
      | Inr subject \<Rightarrow>
          (case subscript w enhanced (lit ''greeting'') of
             Inl e \<Rightarrow> Inl e
           | Inr greeting \<Rightarrow>
               (case subscript w enhanced (lit ''body'') of
                  Inl e \<Rightarrow> Inl e
                | Inr body_text \<Rightarrow>
                    (case subscript w enhanced (lit ''closing'') of
                       Inl e \<Rightarrow> Inl e
                     | Inr closing \<Rightarrow> Inr (subject, greeting, body_text, closing)))))"

definition full_body_of :: "config \<Rightarrow> world \<Rightarrow> json \<Rightarrow> json \<Rightarrow> json \<Rightarrow> pystr" where
  "full_body_of cfg w greeting body_text closing =
     fmt w greeting @ nl @ nl @ fmt w body_text @ nl @ nl @ fmt w closing @ lit '','' @ nl
     @ SENDER_NAME cfg"

text \<open>An entry of \<open>email_contents\<close>.\<close>

record email_content =
  c_recipient :: pystr
  c_subject :: json
  c_body :: pystr

text \<open>One round of the loop over the recipients: its \<open>try\<close> block and its \<open>except\<close>.\<close>

definition process_recipient ::
  "config \<Rightarrow> world \<Rightarrow> pystr \<Rightarrow> pystr \<Rightarrow> pystr list option \<Rightarrow> pystr list option
   \<Rightarrow> pystr list option \<Rightarrow> pystr \<Rightarrow> pystr \<Rightarrow> event list
   \<Rightarrow> (outcome \<times> email_content) \<times> event list" where
  "process_recipient cfg w main_idea tone cc_list bcc_list attachment_list recipient
       recipient_name log =
     (case enhance_email_with_ai cfg w log main_idea tone recipient_name of
        (enhanced, log1) \<Rightarrow>
          (case enhanced_fields w enhanced of
             Inl e \<Rightarrow>
               ((\<lparr>status = lit ''error'',
                  message = lit ''Error for '' @ recipient @ lit '': '' @ str_exn e,
                  attached = None, missing = None\<rparr>,
                 \<lparr>c_recipient = recipient, c_subject = JString (lit ''Error''),
                  c_body = str_exn e\<rparr>), log1)
           | Inr (subject, greeting, body_text, closing) \<Rightarrow>
               (let full_body = full_body_of cfg w greeting body_text closing in
                case send_email cfg w recipient subject full_body cc_list bcc_list
                       attachment_list log1 of
                  (result, log2) \<Rightarrow>
                    ((result,
                      \<lparr>c_recipient = recipient, c_subject = subject, c_body = full_body\<rparr>),
                     log2))))"

fun send_loop ::
  "config \<Rightarrow> world \<Rightarrow> pystr \<Rightarrow> pystr \<Rightarrow> pystr list option \<Rightarrow> pystr list option
   \<Rightarrow> pystr list option \<Rightarrow> (pystr \<times> pystr) list \<Rightarrow> event list
   \<Rightarrow> (outcome \<times> email_content) list \<times> event list" where
  "send_loop cfg w main_idea tone cc_list bcc_list attachment_list [] log = ([], log)"
| "send_loop cfg w main_idea tone cc_list bcc_list attachment_list
       ((recipient, recipient_name) # rest) log =
     (case process_recipient cfg w main_idea tone cc_list bcc_list attachment_list recipient
             recipient_name log of
        (r, log1) \<Rightarrow>
          (case send_loop cfg w main_idea tone cc_list bcc_list attachment_list rest log1 of
             (rs, log2) \<Rightarrow> (r # rs, log2)))"

definition success_count :: "outcome list \<Rightarrow> nat" where
  "success_count results = length (filter (\<lambda>r. status r = lit ''success'') results)"

definition failed_count :: "outcome list \<Rightarrow> nat" where
  "failed_count results = length results - success_count results"

text \<open>\<open>all_attached\<close> and \<open>all_missing\<close> before the duplicates are removed.\<close>

definition collect :: "(outcome \<Rightarrow> pystr list option) \<Rightarrow> outcome list \<Rightarrow> pystr list" where
  "collect field results =
     concat (map (\<lambda>r. case field r of None \<Rightarrow> [] | Some xs \<Rightarrow> if xs \<noteq> [] then xs else [])
                 results)"

definition first_content :: "email_content list \<Rightarrow> json \<times> pystr" where
  "first_content email_contents =
     (case email_contents of
        [] \<Rightarrow> (JString (lit ''N/A''), lit ''N/A'')
      | c # _ \<Rightarrow> (c_subject c, c_body c))"

definition report_header :: pystr where
  "report_header = check_mark @ lit '' Email Sent Successfully''"

definition report_head ::
  "world \<Rightarrow> pystr list \<Rightarrow> outcome list \<Rightarrow> email_content list \<Rightarrow> pystr" where
  "report_head w recipient_list results email_contents =
     report_header @ nl @ nl
     @ lit ''Subject: '' @ fmt w (fst (first_content email_contents)) @ nl
     @ lit ''Recipients: '' @ dec (length recipient_list) @ lit '' (''
     @ dec (success_count results) @ lit '' sent, '' @ dec (failed_count results)
     @ lit '' failed)'' @ nl @ nl
     @ lit ''--- Sample Email Content (first recipient) ---'' @ nl
     @ snd (first_content email_contents) @ nl
     @ lit ''--------------------'' @ nl @ nl
     @ lit ''Delivery Status:'' @ nl"

text \<open>The two \<open>response +=\<close> of one round of the loop over \<open>zip(recipient_list, results)\<close>.\<close>

definition status_entry :: "pystr list \<Rightarrow> nat \<Rightarrow> pystr \<Rightarrow> outcome \<Rightarrow> pystr" where
  "status_entry name_list i recipient result =
     (let status_icon = (if status result = lit ''success'' then check_mark else cross_mark);
          name_info = (if i < length name_list \<and> name_list ! i \<noteq> []
                       then lit '' ('' @ name_list ! i @ lit '')'' else [])
      in nl @ status_icon @ lit '' '' @ recipient @ name_info @ lit '': '' @ message result
         @ status_icon @ lit '' '' @ recipient @ lit '': '' @ message result @ nl)"

fun status_lines :: "pystr list \<Rightarrow> nat \<Rightarrow> (pystr \<times> outcome) list \<Rightarrow> pystr" where
  "status_lines name_list i [] = []"
| "status_lines name_list i ((recipient, result) # rest) =
     status_entry name_list i recipient result @ status_lines name_list (Suc i) rest"

definition report_tail ::
  "world \<Rightarrow> pystr list option \<Rightarrow> pystr list option \<Rightarrow> outcome list \<Rightarrow> pystr" where
  "report_tail w cc_list bcc_list results =
     (let all_attached = list_of_set w (collect attached results);
          all_missing = list_of_set w (collect missing results)
      in (if truthy_list cc_list then nl @ lit ''CC: '' @ py_join (lit '', '') (items cc_list)
          else [])
         @ (if truthy_list bcc_list then nl @ lit ''BCC: '' @ py_join (lit '', '') (items bcc_list)
            else [])
         @ (if all_attached \<noteq> [] then
              nl @ nl @ check_mark @ lit '' Attachments Sent: ''
              @ py_join (lit '', '') all_attached
            else [])
         @ (if all_missing \<noteq> [] then
              nl @ nl @ cross_mark @ lit '' Missing Files (not attached): ''
              @ py_join (lit '', '') all_missing @ nl
              @ lit ''   Please check file paths. Use '' @ sq @ lit ''list_attachments'' @ sq
              @ lit '' tool to browse available files.''
            else []))"

definition format_report ::
  "world \<Rightarrow> pystr list \<Rightarrow> pystr list \<Rightarrow> pystr list option \<Rightarrow> pystr list option
   \<Rightarrow> outcome list \<Rightarrow> email_content list \<Rightarrow> pystr" where
  "format_report w recipient_list name_list cc_list bcc_list results email_contents =
     report_head w recipient_list results email_contents
     @ status_lines name_list 0 (zip recipient_list results)
     @ report_tail w cc_list bcc_list results"

text \<open>The names the loop pairs with the recipients, after the padding.\<close>

definition padded_names :: "pystr \<Rightarrow> pystr \<Rightarrow> pystr list" where
  "padded_names recipients recipient_names =
     pad_names (if recipient_names \<noteq> [] then parse_list recipient_names else [])
       (length (parse_list recipients))"

definition send_professional_email ::
  "config \<Rightarrow> world \<Rightarrow> pystr \<Rightarrow> pystr \<Rightarrow> pystr \<Rightarrow> pystr \<Rightarrow> pystr \<Rightarrow> pystr \<Rightarrow> pystr
   \<Rightarrow> event list \<Rightarrow> pystr \<times> event list" where
  "send_professional_email cfg w main_idea recipients tone cc bcc attachments
       recipient_names log =
     (let recipient_list = parse_list recipients;
          name_list = padded_names recipients recipient_names;
          cc_list = parse_opt_list cc;
          bcc_list = parse_opt_list bcc;
          attachment_list = parse_attachments w attachments
      in if recipient_list = [] then (lit ''Error: No valid recipients provided'', log)
         else if main_idea = [] then (lit ''Error: No main idea provided'', log)
         else if \<not> truthy (SMTP_EMAIL cfg) \<or> \<not> truthy (SMTP_PASSWORD cfg) then
           (lit ''Error: SMTP credentials not configured. Please set SMTP_EMAIL and SMTP_PASSWORD in .env file'',
            log)
         else
           (case send_loop cfg w main_idea tone cc_list bcc_list attachment_list
                   (zip recipient_list name_list) log of
              (rs, log') \<Rightarrow>
                (format_report w recipient_list name_list cc_list bcc_list
                   (map fst rs) (map snd rs), log')))"

subsection \<open>The variant of \<open>main.py\<close>\<close>

text \<open>
  The markers of \<open>main.py\<close> are the three code points its string literals hold
  (\<open>U+00E2 U+0153 U+201C\<close> and \<open>U+00E2 U+0153 U+2014\<close>).
\<close>

definition check_mark_main :: pystr where
  "check_mark_main = [226, 339, 8220]"

definition cross_mark_main :: pystr where
  "cross_mark_main = [226, 339, 8212]"

fun send_all_main ::
  "config \<Rightarrow> world \<Rightarrow> json \<Rightarrow> pystr \<Rightarrow> pystr list option \<Rightarrow> pystr list option \<Rightarrow> pystr list
   \<Rightarrow> event list \<Rightarrow> outcome list \<times> event list" where
  "send_all_main cfg w subject full_body cc_list bcc_list [] log = ([], log)"
| "send_all_main cfg w subject full_body cc_list bcc_list (recipient # rest) log =
     (case send_email_main cfg w recipient subject full_body cc_list bcc_list log of
        (result, log1) \<Rightarrow>
          (case send_all_main cfg w subject full_body cc_list bcc_list rest log1 of
             (results, log2) \<Rightarrow> (result # results, log2)))"

fun status_lines_main :: "(pystr \<times> outcome) list \<Rightarrow> pystr" where
  "status_lines_main [] = []"
| "status_lines_main ((recipient, result) # rest) =
     (if status result = lit ''success'' then check_mark_main else cross_mark_main)
     @ lit '' '' @ recipient @ lit '': '' @ message result @ nl @ status_lines_main rest"

definition format_report_main ::
  "world \<Rightarrow> pystr list \<Rightarrow> pystr list option \<Rightarrow> pystr list option \<Rightarrow> json \<Rightarrow> pystr
   \<Rightarrow> outcome list \<Rightarrow> pystr" where
  "format_report_main w recipient_list cc_list bcc_list subject full_body results =
     check_mark_main @ lit '' Email Sent Successfully'' @ nl @ nl
     @ lit ''Subject: '' @ fmt w subject @ nl
     @ lit ''Recipients: '' @ dec (length recipient_list) @ lit '' (''
     @ dec (success_count results) @ lit '' sent, '' @ dec (failed_count results)
     @ lit '' failed)'' @ nl @ nl
     @ lit ''--- Email Content ---'' @ nl
     @ full_body @ nl
     @ lit ''--------------------'' @ nl @ nl
     @ lit ''Delivery Status:'' @ nl
     @ status_lines_main (zip recipient_list results)
     @ (if truthy_list cc_list then nl @ lit ''CC: '' @ py_join (lit '', '') (items cc_list)
        else [])
     @ (if truthy_list bcc_list then nl @ lit ''BCC: '' @ py_join (lit '', '') (items bcc_list)
        else [])"

definition send_professional_email_main ::
  "config \<Rightarrow> world \<Rightarrow> pystr \<Rightarrow> pystr \<Rightarrow> pystr \<Rightarrow> pystr \<Rightarrow> pystr \<Rightarrow> event list
   \<Rightarrow> pystr \<times> event list" where
  "send_professional_email_main cfg w main_idea recipients tone cc bcc log =
     (let recipient_list = parse_list recipients;
          cc_list = parse_opt_list cc;
          bcc_list = parse_opt_list bcc
      in if recipient_list = [] then (lit ''Error: No valid recipients provided'', log)
         else if main_idea = [] then (lit ''Error: No main idea provided'', log)
         else if \<not> truthy (SMTP_EMAIL cfg) \<or> \<not> truthy (SMTP_PASSWORD cfg) then
           (lit ''Error: SMTP credentials not configured. Please set SMTP_EMAIL and SMTP_PASSWORD in .env file'',
            log)
         else
           (case enhance_email_with_ai_main w log main_idea tone of
              (enhanced, log1) \<Rightarrow>
                (case enhanced_fields w enhanced of
                   Inl e \<Rightarrow> (lit ''Error enhancing email: '' @ str_exn e, log1)
                 | Inr (subject, greeting, body_text, closing) \<Rightarrow>
                     (let full_body = full_body_of cfg w greeting body_text closing in
                      case send_all_main cfg w subject full_body cc_list bcc_list
                             recipient_list log1 of
                        (results, log2) \<Rightarrow>
                          (format_report_main w recipient_list cc_list bcc_list subject
                             full_body results, log2)))))"

subsection \<open>A POSIX platform, for concrete runs\<close>

definition posix_isabs :: "pystr \<Rightarrow> bool" where
  "posix_isabs p = prefix [47] p"

definition posix_join :: "pystr \<Rightarrow> pystr \<Rightarrow> pystr" where
  "posix_join a b =
     (if prefix [47] b then b
      else if a = [] \<or> suffix [47] a then a @ b
      else a @ [47] @ b)"

definition posix_basename :: "pystr \<Rightarrow> pystr" where
  "posix_basename p = rev (takeWhile (\<lambda>c. c \<noteq> 47) (rev p))"

section \<open>Concrete configurations and worlds\<close>

text \<open>
  A configuration with working SMTP credentials, and a POSIX world whose module lives in
  \<open>/app\<close>: the text generator, the JSON parser, the files and the answers of the SMTP
  connection and of \<open>sendmail\<close> are given; every other SMTP step succeeds.
\<close>

definition demo_cfg :: "pystr option \<Rightarrow> config" where
  "demo_cfg key =
     \<lparr>GEMINI_API_KEY = key, SMTP_SERVER = lit ''smtp.gmail.com'', SMTP_PORT = 587,
      SMTP_EMAIL = Some (lit ''me@x.com''), SMTP_PASSWORD = Some (lit ''pw''),
      SENDER_NAME = lit ''Me''\<rparr>"

definition cpython_subscript_msg :: "json \<Rightarrow> pystr" where
  "cpython_subscript_msg v =
     (case v of
        JArray _ \<Rightarrow> lit ''list indices must be integers or slices, not str''
      | JString _ \<Rightarrow> lit ''string indices must be integers, not '' @ sq @ lit ''str'' @ sq
      | _ \<Rightarrow> lit ''object is not subscriptable'')"

definition demo_isfile :: "(pystr \<Rightarrow> nat list option) \<Rightarrow> event list \<Rightarrow> bool" where
  "demo_isfile files log =
     (case last log of IsFile p \<Rightarrow> files p \<noteq> None | _ \<Rightarrow> False)"

definition demo_read_file :: "(pystr \<Rightarrow> nat list option) \<Rightarrow> event list \<Rightarrow> exn + nat list" where
  "demo_read_file files log =
     (case last log of
        ReadFile p \<Rightarrow>
          (case files p of Some d \<Rightarrow> Inr d | None \<Rightarrow> Inl (LibraryError (lit ''No such file'')))
      | _ \<Rightarrow> Inl (LibraryError (lit ''No such file'')))"

definition demo_world ::
  "(event list \<Rightarrow> exn + pystr) \<Rightarrow> (pystr \<Rightarrow> exn + json) \<Rightarrow> (pystr \<Rightarrow> nat list option)
   \<Rightarrow> (event list \<Rightarrow> exn option) \<Rightarrow> (event list \<Rightarrow> exn option) \<Rightarrow> world" where
  "demo_world gen loads files conn sendm =
     \<lparr>generate_content = gen, json_loads = loads, py_str = (\<lambda>_. lit ''?''),
      subscript_msg = cpython_subscript_msg,
      path_isabs = posix_isabs, path_join = posix_join, path_basename = posix_basename,
      module_dir = lit ''/app'',
      isfile = demo_isfile files, read_file = demo_read_file files,
      guess_type = (\<lambda>_. (None, None)), mime_text = (\<lambda>_. None),
      as_string = (\<lambda>_. None), list_of_set = remdups,
      smtp_connect = conn, smtp_starttls = (\<lambda>_. None), smtp_login = (\<lambda>_. None),
      smtp_sendmail = sendm, smtp_quit = (\<lambda>_. None)\<rparr>"

text \<open>A generator that is down, a parser that rejects everything, a relay that accepts.\<close>

definition gen_down :: "event list \<Rightarrow> exn + pystr" where
  "gen_down log = Inl (LibraryError (lit ''unreachable''))"

definition loads_none :: "pystr \<Rightarrow> exn + json" where
  "loads_none text = Inl (LibraryError (lit ''Expecting value''))"

definition no_files :: "pystr \<Rightarrow> nat list option" where
  "no_files p = None"

definition accept :: "event list \<Rightarrow> exn option" where
  "accept log = None"

text \<open>A relay that refuses the messages whose primary recipient is \<open>rcpt\<close>.\<close>

definition refuse :: "pystr \<Rightarrow> event list \<Rightarrow> exn option" where
  "refuse rcpt log =
     (case last log of
        SmtpSendmail frm (t # rest) msg \<Rightarrow>
          if t = rcpt then Some (LibraryError (lit ''refused'')) else None
      | _ \<Rightarrow> None)"

definition fenced_reply :: pystr where
  \<open>fenced_reply = lit ''```json'' @ nl @ lit ''{"subject": "S", "greeting": "G", "body": "B", "closing": "C"}'' @ nl @ lit ''```''\<close>

definition reply_object :: json where
  "reply_object = JObject [(lit ''subject'', JString (lit ''S'')), (lit ''greeting'', JString (lit ''G'')),
      (lit ''body'', JString (lit ''B'')), (lit ''closing'', JString (lit ''C''))]"

definition gen_fenced :: "event list \<Rightarrow> exn + pystr" where
  "gen_fenced log = Inr fenced_reply"

definition loads_reply :: "pystr \<Rightarrow> exn + json" where
  \<open>loads_reply text =
     (if text = lit ''{"subject": "S", "greeting": "G", "body": "B", "closing": "C"}''
      then Inr reply_object else Inl (LibraryError (lit ''Expecting value'')))\<close>

text \<open>The recipients of the send attempts recorded in a log, in order.\<close>

fun send_calls :: "event list \<Rightarrow> pystr list" where
  "send_calls [] = []"
| "send_calls (SendEmailCall to_email # evs) = to_email # send_calls evs"
| "send_calls (ev # evs) = send_calls evs"

definition demo_message :: message where
  "demo_message =
     \<lparr>headers = build_headers (demo_cfg None) (lit ''a@x.com'') (JString (lit ''S''))
                  (Some [lit ''c@x.com'']),
      parts = [TextPart (lit ''B'') (lit ''plain'')]\<rparr>"

text \<open>The disposition file name of a part, for the parts that carry a file.\<close>

fun file_name_of :: "mime_part \<Rightarrow> pystr option" where
  "file_name_of (TextPart text subtype) = None"
| "file_name_of (FilePart maintype subtype payload filename) = Some filename"

text \<open>
  The paths whose existence is checked in a stretch of events, and those among them for
  which the world answers no (\<open>failed_checks\<close>) or yes (\<open>passed_checks\<close>) when the
  stretch follows the given log.
\<close>

fun checked_paths :: "event list \<Rightarrow> pystr list" where
  "checked_paths [] = []"
| "checked_paths (IsFile p # evs) = p # checked_paths evs"
| "checked_paths (ev # evs) = checked_paths evs"

fun failed_checks :: "world \<Rightarrow> event list \<Rightarrow> event list \<Rightarrow> pystr list" where
  "failed_checks w log [] = []"
| "failed_checks w log (IsFile p # evs) =
     (if isfile w (log @ [IsFile p]) then [] else [p])
     @ failed_checks w (log @ [IsFile p]) evs"
| "failed_checks w log (ev # evs) = failed_checks w (log @ [ev]) evs"

fun passed_checks :: "world \<Rightarrow> event list \<Rightarrow> event list \<Rightarrow> pystr list" where
  "passed_checks w log [] = []"
| "passed_checks w log (IsFile p # evs) =
     (if isfile w (log @ [IsFile p]) then [p] else [])
     @ passed_checks w (log @ [IsFile p]) evs"
| "passed_checks w log (ev # evs) = passed_checks w (log @ [ev]) evs"

text \<open>A relay that cannot be reached, and a file system with one file.\<close>

definition conn_refused :: "event list \<Rightarrow> exn option" where
  "conn_refused log = Some (LibraryError (lit ''Connection refused''))"

definition one_file :: "pystr \<Rightarrow> nat list option" where
  "one_file p = (if p = lit ''/app/a.txt'' then Some [1, 2, 3] else None)"

text \<open>
  A generator that answers with a JSON array of the four key names, and a parser that
  reads it.
\<close>

definition gen_array :: "event list \<Rightarrow> exn + pystr" where
  \<open>gen_array log = Inr (lit ''["subject", "greeting", "body", "closing"]'')\<close>

definition loads_array :: "pystr \<Rightarrow> exn + json" where
  \<open>loads_array text =
     (if text = lit ''["subject", "greeting", "body", "closing"]''
      then Inr (JArray [JString (lit ''subject''), JString (lit ''greeting''),
                        JString (lit ''body''), JString (lit ''closing'')])
      else Inl (LibraryError (lit ''Expecting value'')))\<close>

text \<open>
  The fence stripping in the words of the specification: a code fence wrapped around
  the text (three backquotes, with or without \<open>json\<close>, before it and three backquotes
  after it) is taken off; a text without this wrapping is left as it is.
\<close>

definition strip_code_fence :: "pystr \<Rightarrow> pystr" where
  "strip_code_fence text =
     (if prefix fence_json text \<and> suffix fence text
           \<and> length fence_json + length fence \<le> length text then
        py_strip (take (length text - length fence_json - length fence)
                    (drop (length fence_json) text))
      else if prefix fence text \<and> suffix fence text \<and> 2 * length fence \<le> length text then
        py_strip (take (length text - 2 * length fence) (drop (length fence) text))
      else text)"

text \<open>
  A generator whose reply is a JSON object with the four keys, no fence around it and
  three backquotes inside the subject, and a parser that reads this reply.
\<close>

definition backquote_reply :: pystr where
  \<open>backquote_reply =
     lit ''{"subject": "Use ``` here", "greeting": "G", "body": "B", "closing": "C"}''\<close>

definition backquote_object :: json where
  "backquote_object =
     JObject [(lit ''subject'', JString (lit ''Use ``` here'')),
              (lit ''greeting'', JString (lit ''G'')), (lit ''body'', JString (lit ''B'')),
              (lit ''closing'', JString (lit ''C''))]"

definition gen_backquote :: "event list \<Rightarrow> exn + pystr" where
  "gen_backquote log = Inr backquote_reply"

definition loads_backquote :: "pystr \<Rightarrow> exn + json" where
  "loads_backquote text =
     (if text = backquote_reply then Inr backquote_object
      else Inl (LibraryError (lit ''Expecting value'')))"

section \<open>Input validation\<close>

text \<open>
  C3: when the parsed recipient list is empty, or the main idea is the empty string, or
  the SMTP email or password is not configured, \<open>send_professional_email\<close> (of
  \<open>server.py\<close> and of \<open>main.py\<close>) returns one of the three error strings, which has a
  single line, and leaves the log as it was: no enhancement call and no send attempt.
\<close>

theorem validation_short_circuits:
  assumes "parse_list recipients = [] \<or> main_idea = [] \<or> \<not> truthy (SMTP_EMAIL cfg)
           \<or> \<not> truthy (SMTP_PASSWORD cfg)"
  shows "snd (send_professional_email cfg w main_idea recipients tone cc bcc attachments
                recipient_names log) = log
         \<and> snd (send_professional_email_main cfg w main_idea recipients tone cc bcc log) = log
         \<and> fst (send_professional_email cfg w main_idea recipients tone cc bcc attachments
                recipient_names log)
           = fst (send_professional_email_main cfg w main_idea recipients tone cc bcc log)
         \<and> fst (send_professional_email cfg w main_idea recipients tone cc bcc attachments
                recipient_names log)
           \<in> {lit ''Error: No valid recipients provided'', lit ''Error: No main idea provided'',
              lit ''Error: SMTP credentials not configured. Please set SMTP_EMAIL and SMTP_PASSWORD in .env file''}
         \<and> 10 \<notin> set (fst (send_professional_email cfg w main_idea recipients tone cc bcc
                attachments recipient_names log))"
  using assms
  by (auto simp add: send_professional_email_def send_professional_email_main_def Let_def
        lit_def)

theorem validation_short_circuits_witness:
  "parse_list (lit '' , '') = []
   \<and> snd (send_professional_email (demo_cfg None)
             (demo_world gen_down loads_none no_files accept accept)
             (lit ''hi'') (lit '' , '') (lit ''professional'') [] [] [] [] []) = []"
proof -
  have h: "parse_list (lit '' , '') = []"
    by (simp add: parse_list_def py_split_def py_strip_def py_isspace_def lit_def)
  show ?thesis
    using h validation_short_circuits [of "lit '' , ''" "lit ''hi''" "demo_cfg None"
        "demo_world gen_down loads_none no_files accept accept"
        "lit ''professional''" "[]" "[]" "[]" "[]" "[]"]
    by simp
qed

section \<open>The enhancer: fallback and round trip\<close>

lemma enhance_try_unconfigured:
  "\<not> truthy (GEMINI_API_KEY cfg) \<Longrightarrow>
   enhance_try cfg w log main_idea tone recipient_name
     = (Inl (ValueError (lit ''Gemini API key not configured'')), log)"
  by (simp add: enhance_try_def)

lemma enhance_try_unreachable:
  "truthy (GEMINI_API_KEY cfg) \<Longrightarrow>
   generate_content w
     (log @ [GenerateContent (lit ''gemini-2.5-flash'')
               (build_prompt main_idea tone recipient_name)]) = Inl e \<Longrightarrow>
   fst (enhance_try cfg w log main_idea tone recipient_name) = Inl e"
  by (simp add: enhance_try_def Let_def)

lemma enhance_try_parse:
  "truthy (GEMINI_API_KEY cfg) \<Longrightarrow>
   generate_content w
     (log @ [GenerateContent (lit ''gemini-2.5-flash'')
               (build_prompt main_idea tone recipient_name)]) = Inr raw \<Longrightarrow>
   fst (enhance_try cfg w log main_idea tone recipient_name) = parse_response w raw"
  by (simp add: enhance_try_def Let_def)

lemma parse_response_unparseable:
  "extract_json (py_strip raw) = Inr text \<Longrightarrow> json_loads w text = Inl e \<Longrightarrow>
   parse_response w raw = Inl e"
  by (simp add: parse_response_def)

lemma parse_response_missing_key:
  "extract_json (py_strip raw) = Inr text \<Longrightarrow> json_loads w text = Inr (JObject kvs) \<Longrightarrow>
   k \<in> set required_keys \<Longrightarrow> k \<notin> fst ` set kvs \<Longrightarrow>
   \<exists>e. parse_response w raw = Inl e"
  by (auto simp add: parse_response_def required_keys_def split: sum.splits)

lemma fallback_fields:
  "enhanced_fields w (fallback_email main_idea)
     = Inr (JString (lit ''Update: '' @ take 50 main_idea), JString (lit ''Hello,''),
            JString (lit ''I wanted to reach out regarding: '' @ main_idea @ nl @ nl
                     @ lit ''Please let me know if you have any questions.''),
            JString (lit ''Best regards''))"
  by (simp add: enhanced_fields_def fallback_email_def lit_def)

text \<open>
  Whenever the \<open>try\<close> block of \<open>enhance_email_with_ai\<close> raises, the function returns
  the fallback built from the idea alone, whose four fields are non-empty strings. The
  same holds for the variant of \<open>main.py\<close>.
\<close>

lemma fallback_on_exception:
  "(fst (enhance_try cfg w log main_idea tone recipient_name) = Inl e \<longrightarrow>
      fst (enhance_email_with_ai cfg w log main_idea tone recipient_name)
        = fallback_email main_idea)
   \<and> (fst (enhance_try_main w log main_idea tone) = Inl e' \<longrightarrow>
      fst (enhance_email_with_ai_main w log main_idea tone) = fallback_email main_idea)
   \<and> (\<exists>greeting body_text closing.
        enhanced_fields w (fallback_email main_idea)
          = Inr (JString (lit ''Update: '' @ take 50 main_idea), JString greeting,
                 JString body_text, JString closing)
        \<and> lit ''Update: '' @ take 50 main_idea \<noteq> [] \<and> greeting \<noteq> [] \<and> body_text \<noteq> []
        \<and> closing \<noteq> [])"
proof (intro conjI impI)
  assume "fst (enhance_try cfg w log main_idea tone recipient_name) = Inl e"
  then show "fst (enhance_email_with_ai cfg w log main_idea tone recipient_name)
        = fallback_email main_idea"
    by (cases "enhance_try cfg w log main_idea tone recipient_name")
       (simp add: enhance_email_with_ai_def)
next
  assume "fst (enhance_try_main w log main_idea tone) = Inl e'"
  then show "fst (enhance_email_with_ai_main w log main_idea tone) = fallback_email main_idea"
    by (cases "enhance_try_main w log main_idea tone")
       (simp add: enhance_email_with_ai_main_def)
next
  show "\<exists>greeting body_text closing.
        enhanced_fields w (fallback_email main_idea)
          = Inr (JString (lit ''Update: '' @ take 50 main_idea), JString greeting,
                 JString body_text, JString closing)
        \<and> lit ''Update: '' @ take 50 main_idea \<noteq> [] \<and> greeting \<noteq> [] \<and> body_text \<noteq> []
        \<and> closing \<noteq> []"
    by (simp add: fallback_fields) (simp add: lit_def)
qed

text \<open>
  The causes that do raise: no API key (\<open>server.py\<close>), a call that fails, a text that
  does not parse, a parsed object that lacks one of the four keys.
\<close>

lemma fallback_on_listed_causes:
  assumes "\<not> truthy (GEMINI_API_KEY cfg)
           \<or> (\<exists>e. generate_content w
                    (log @ [GenerateContent (lit ''gemini-2.5-flash'')
                              (build_prompt main_idea tone recipient_name)]) = Inl e)
           \<or> (\<exists>raw jtext.
                 generate_content w
                   (log @ [GenerateContent (lit ''gemini-2.5-flash'')
                             (build_prompt main_idea tone recipient_name)]) = Inr raw
                 \<and> extract_json (py_strip raw) = Inr jtext
                 \<and> ((\<exists>e. json_loads w jtext = Inl e)
                      \<or> (\<exists>kvs. json_loads w jtext = Inr (JObject kvs)
                                \<and> \<not> set required_keys \<subseteq> fst ` set kvs)))"
  shows "fst (enhance_email_with_ai cfg w log main_idea tone recipient_name)
           = fallback_email main_idea"
proof -
  have "\<exists>e. fst (enhance_try cfg w log main_idea tone recipient_name) = Inl e"
  proof (cases "truthy (GEMINI_API_KEY cfg)")
    case False
    then show ?thesis by (simp add: enhance_try_unconfigured)
  next
    case True
    with assms consider
      (down) e where "generate_content w
                    (log @ [GenerateContent (lit ''gemini-2.5-flash'')
                              (build_prompt main_idea tone recipient_name)]) = Inl e"
      | (bad) raw jtext e where "generate_content w
                    (log @ [GenerateContent (lit ''gemini-2.5-flash'')
                              (build_prompt main_idea tone recipient_name)]) = Inr raw"
          "extract_json (py_strip raw) = Inr jtext" "json_loads w jtext = Inl e"
      | (keys) raw jtext kvs where "generate_content w
                    (log @ [GenerateContent (lit ''gemini-2.5-flash'')
                              (build_prompt main_idea tone recipient_name)]) = Inr raw"
          "extract_json (py_strip raw) = Inr jtext" "json_loads w jtext = Inr (JObject kvs)"
          "\<not> set required_keys \<subseteq> fst ` set kvs"
      by blast
    then show ?thesis
    proof cases
      case down
      with True show ?thesis by (simp add: enhance_try_unreachable)
    next
      case bad
      with True show ?thesis
        by (simp add: enhance_try_parse parse_response_unparseable)
    next
      case keys
      then obtain k where "k \<in> set required_keys" "k \<notin> fst ` set kvs"
        by blast
      from parse_response_missing_key [OF keys(2,3) this] keys(1) True show ?thesis
        by (simp add: enhance_try_parse)
    qed
  qed
  then show ?thesis
    using fallback_on_exception by blast
qed

text \<open>
  A response whose text, after the extraction of the source, parses as an object with
  exactly the four keys is returned as parsed.
\<close>

lemma all_keys_in_object:
  "set ks \<subseteq> fst ` set kvs \<Longrightarrow> all_keys_in ks (JObject kvs) = Inr True"
  by (induction ks) auto

lemma parsed_object_returned:
  assumes "extract_json (py_strip raw) = Inr text"
    and "json_loads w text = Inr (JObject kvs)"
    and "fst ` set kvs = set required_keys"
  shows "(truthy (GEMINI_API_KEY cfg)
          \<and> generate_content w
               (log @ [GenerateContent (lit ''gemini-2.5-flash'')
                         (build_prompt main_idea tone recipient_name)]) = Inr raw
          \<longrightarrow> fst (enhance_email_with_ai cfg w log main_idea tone recipient_name) = JObject kvs)
       \<and> (generate_content w
               (log @ [GenerateContent (lit ''gemini-1.5-flash'')
                         (build_prompt_main main_idea tone)]) = Inr raw
          \<longrightarrow> fst (enhance_email_with_ai_main w log main_idea tone) = JObject kvs)
       \<and> (\<forall>k \<in> set required_keys. \<forall>v. map_of kvs k = Some v \<longrightarrow>
            subscript w (JObject kvs) k = Inr v)
       \<and> (\<exists>subject greeting body_text closing.
            enhanced_fields w (JObject kvs) = Inr (subject, greeting, body_text, closing)
            \<and> map_of kvs (lit ''subject'') = Some subject
            \<and> map_of kvs (lit ''greeting'') = Some greeting
            \<and> map_of kvs (lit ''body'') = Some body_text
            \<and> map_of kvs (lit ''closing'') = Some closing)"
proof -
  have keys: "all_keys_in required_keys (JObject kvs) = Inr True"
    using assms(3) by (simp add: all_keys_in_object)
  have pr: "parse_response w raw = Inr (JObject kvs)"
    using assms(1,2) keys by (simp add: parse_response_def)
  have dom: "\<And>k. k \<in> set required_keys \<Longrightarrow> \<exists>v. map_of kvs k = Some v"
    using assms(3) by (metis domD dom_map_of_conv_image_fst)
  obtain s g b c where
    sgbc: "map_of kvs (lit ''subject'') = Some s" "map_of kvs (lit ''greeting'') = Some g"
          "map_of kvs (lit ''body'') = Some b" "map_of kvs (lit ''closing'') = Some c"
    using dom [of "lit ''subject''"] dom [of "lit ''greeting''"] dom [of "lit ''body''"]
      dom [of "lit ''closing''"]
    by (auto simp add: required_keys_def)
  show ?thesis
    using pr sgbc
    by (auto simp add: enhance_email_with_ai_def enhance_try_def enhance_email_with_ai_main_def
          enhance_try_main_def Let_def enhanced_fields_def)
qed


lemma extract_fenced_reply:
  \<open>extract_json (py_strip fenced_reply)
     = Inr (lit ''{"subject": "S", "greeting": "G", "body": "B", "closing": "C"}'')\<close>
  by (simp add: fenced_reply_def extract_json_def between_fences_def fence_def fence_json_def
        py_strip_def py_isspace_def py_split_def index_def nl_def lit_def)

lemma demo_fenced_reply_returned:
  \<open>truthy (GEMINI_API_KEY (demo_cfg (Some (lit ''key''))))
   \<and> fst (enhance_email_with_ai (demo_cfg (Some (lit ''key'')))
            (demo_world gen_fenced loads_reply no_files accept accept) []
            (lit ''hi'') (lit ''formal'') (lit ''Alice'')) = reply_object
   \<and> fst (enhance_email_with_ai_main
            (demo_world gen_fenced loads_reply no_files accept accept) []
            (lit ''hi'') (lit ''formal'')) = reply_object\<close>
proof -
  let ?w = "demo_world gen_fenced loads_reply no_files accept accept"
  let ?text = \<open>lit ''{"subject": "S", "greeting": "G", "body": "B", "closing": "C"}''\<close>
  let ?kvs = "[(lit ''subject'', JString (lit ''S'')), (lit ''greeting'', JString (lit ''G'')),
      (lit ''body'', JString (lit ''B'')), (lit ''closing'', JString (lit ''C''))]"
  have k: "truthy (GEMINI_API_KEY (demo_cfg (Some (lit ''key''))))"
    by (simp add: demo_cfg_def lit_def)
  have l: "json_loads ?w ?text = Inr (JObject ?kvs)"
    by (simp add: demo_world_def loads_reply_def reply_object_def)
  have d: "fst ` set ?kvs = set required_keys"
    by (simp add: required_keys_def insert_commute)
  have g: "\<And>log. generate_content ?w log = Inr fenced_reply"
    by (simp add: demo_world_def gen_fenced_def)
  show ?thesis
    using k g parsed_object_returned [OF extract_fenced_reply l d, of "demo_cfg (Some (lit ''key''))"
        "[]" "lit ''hi''" "lit ''formal''" "lit ''Alice''"]
    by (simp add: reply_object_def)
qed

text \<open>
  A reply that is a JSON array (or a string) naming the four keys passes
  \<open>key in result\<close> and is returned as it is.
\<close>

lemma demo_array_enhanced:
  "enhance_email_with_ai (demo_cfg (Some (lit ''key'')))
     (demo_world gen_array loads_array no_files accept accept) [] (lit ''hi'')
     (lit ''professional'') []
   = (JArray [JString (lit ''subject''), JString (lit ''greeting''), JString (lit ''body''),
              JString (lit ''closing'')],
      [GenerateContent (lit ''gemini-2.5-flash'')
         (build_prompt (lit ''hi'') (lit ''professional'') [])])"
  by (simp add: enhance_email_with_ai_def enhance_try_def demo_cfg_def demo_world_def
        gen_array_def loads_array_def parse_response_def extract_json_def fence_def
        fence_json_def py_strip_def py_isspace_def required_keys_def Let_def lit_def)

lemma demo_array_enhanced_main:
  "enhance_email_with_ai_main (demo_world gen_array loads_array no_files accept accept) []
     (lit ''hi'') (lit ''professional'')
   = (JArray [JString (lit ''subject''), JString (lit ''greeting''), JString (lit ''body''),
              JString (lit ''closing'')],
      [GenerateContent (lit ''gemini-1.5-flash'')
         (build_prompt_main (lit ''hi'') (lit ''professional''))])"
  by (simp add: enhance_email_with_ai_main_def enhance_try_main_def demo_world_def
        gen_array_def loads_array_def parse_response_def extract_json_def fence_def
        fence_json_def py_strip_def py_isspace_def required_keys_def Let_def lit_def)

text \<open>
  C2 fails on the code: the reply \<open>["subject", "greeting", "body", "closing"]\<close> has none
  of the required keys (it is no object), yet \<open>enhance_email_with_ai\<close>, in \<open>server.py\<close>
  and in \<open>main.py\<close>, returns the parsed list and not the fallback; the caller cannot
  read a subject from it.
\<close>

theorem array_reply_returned_as_is:
  "fst (enhance_email_with_ai (demo_cfg (Some (lit ''key'')))
          (demo_world gen_array loads_array no_files accept accept) [] (lit ''hi'')
          (lit ''professional'') [])
     = JArray [JString (lit ''subject''), JString (lit ''greeting''), JString (lit ''body''),
               JString (lit ''closing'')]
   \<and> fst (enhance_email_with_ai_main
            (demo_world gen_array loads_array no_files accept accept) [] (lit ''hi'')
            (lit ''professional''))
     = JArray [JString (lit ''subject''), JString (lit ''greeting''), JString (lit ''body''),
               JString (lit ''closing'')]
   \<and> enhanced_fields (demo_world gen_array loads_array no_files accept accept)
        (JArray [JString (lit ''subject''), JString (lit ''greeting''), JString (lit ''body''),
                 JString (lit ''closing'')])
     = Inl (TypeError (lit ''list indices must be integers or slices, not str''))"
proof -
  have "subscript_msg (demo_world gen_array loads_array no_files accept accept)
          (JArray [JString (lit ''subject''), JString (lit ''greeting''),
                   JString (lit ''body''), JString (lit ''closing'')])
        = lit ''list indices must be integers or slices, not str''"
    by (simp add: demo_world_def cpython_subscript_msg_def)
  then show ?thesis
    by (simp add: demo_array_enhanced demo_array_enhanced_main enhanced_fields_def)
qed

theorem array_reply_returned_as_is_witness:
  "fst (enhance_email_with_ai (demo_cfg (Some (lit ''key'')))
          (demo_world gen_array loads_array no_files accept accept) [] (lit ''hi'')
          (lit ''professional'') [])
     \<noteq> fallback_email (lit ''hi'')
   \<and> fst (enhance_email_with_ai_main
            (demo_world gen_array loads_array no_files accept accept) [] (lit ''hi'')
            (lit ''professional''))
     \<noteq> fallback_email (lit ''hi'')"
  using array_reply_returned_as_is by (simp add: fallback_email_def)

text \<open>A reply without a code fence whose subject mentions three backquotes.\<close>

lemma extract_backquote_reply:
  \<open>extract_json (py_strip backquote_reply)
     = Inr (lit ''here", "greeting": "G", "body": "B", "closing": "C"}'')\<close>
  by (simp add: backquote_reply_def extract_json_def between_fences_def fence_def
        fence_json_def py_strip_def py_isspace_def py_split_def index_def lit_def)

lemma backquote_reply_unfenced:
  "strip_code_fence (py_strip backquote_reply) = backquote_reply"
  by (simp add: backquote_reply_def strip_code_fence_def fence_def fence_json_def
        py_strip_def py_isspace_def suffix_to_prefix lit_def)

text \<open>
  C6 fails on the code: the reply is a well-formed JSON object with exactly the four
  keys and has no code fence around it, so its fence-stripped text is the reply itself
  and parses; but the subject mentions three backquotes, the substring test of the
  source takes them for a fence and cuts the reply, the rest does not parse, and
  \<open>enhance_email_with_ai\<close>, in \<open>server.py\<close> and in \<open>main.py\<close>, returns the fallback
  instead of the four parsed values.
\<close>

theorem backquote_reply_not_returned:
  "json_loads (demo_world gen_backquote loads_backquote no_files accept accept)
     (strip_code_fence (py_strip backquote_reply)) = Inr backquote_object
   \<and> fst (enhance_email_with_ai (demo_cfg (Some (lit ''key'')))
            (demo_world gen_backquote loads_backquote no_files accept accept) [] (lit ''hi'')
            (lit ''professional'') [])
     = fallback_email (lit ''hi'')
   \<and> fst (enhance_email_with_ai_main
            (demo_world gen_backquote loads_backquote no_files accept accept) [] (lit ''hi'')
            (lit ''professional''))
     = fallback_email (lit ''hi'')"
proof -
  let ?w = "demo_world gen_backquote loads_backquote no_files accept accept"
  have l: "json_loads ?w (strip_code_fence (py_strip backquote_reply)) = Inr backquote_object"
    unfolding backquote_reply_unfenced by (simp add: demo_world_def loads_backquote_def)
  have cut: \<open>json_loads ?w (lit ''here", "greeting": "G", "body": "B", "closing": "C"}'')
             = Inl (LibraryError (lit ''Expecting value''))\<close>
    by (simp add: demo_world_def loads_backquote_def backquote_reply_def lit_def)
  have p: "parse_response ?w backquote_reply = Inl (LibraryError (lit ''Expecting value''))"
    by (simp add: parse_response_def extract_backquote_reply cut)
  have g: "\<And>log. generate_content ?w log = Inr backquote_reply"
    by (simp add: demo_world_def gen_backquote_def)
  have k: "truthy (GEMINI_API_KEY (demo_cfg (Some (lit ''key''))))"
    by (simp add: demo_cfg_def lit_def)
  have a: "fst (enhance_email_with_ai (demo_cfg (Some (lit ''key''))) ?w [] (lit ''hi'')
                  (lit ''professional'') []) = fallback_email (lit ''hi'')"
    using k by (simp add: enhance_email_with_ai_def enhance_try_def g p Let_def)
  have b: "fst (enhance_email_with_ai_main ?w [] (lit ''hi'') (lit ''professional''))
             = fallback_email (lit ''hi'')"
    by (simp add: enhance_email_with_ai_main_def enhance_try_main_def g p Let_def)
  from l a b show ?thesis by blast
qed

theorem backquote_reply_not_returned_witness:
  "fst (enhance_email_with_ai (demo_cfg (Some (lit ''key'')))
          (demo_world gen_backquote loads_backquote no_files accept accept) [] (lit ''hi'')
          (lit ''professional'') [])
     \<noteq> backquote_object
   \<and> fst (enhance_email_with_ai_main
            (demo_world gen_backquote loads_backquote no_files accept accept) [] (lit ''hi'')
            (lit ''professional''))
     \<noteq> backquote_object"
  using backquote_reply_not_returned
  by (simp add: fallback_email_def backquote_object_def lit_def)

section \<open>What a call adds to the log\<close>

declare dec.simps [simp del]

declare pad_names.simps [simp del]

lemma send_calls_append: "send_calls (xs @ ys) = send_calls xs @ send_calls ys"
  by (induction xs rule: send_calls.induct) auto

lemma attach_files_log:
  "attach_files w fs st log = (r, log') \<Longrightarrow>
   \<exists>evs. log' = log @ evs \<and> set evs \<subseteq> IsFile ` set fs \<union> ReadFile ` set fs"
proof (induction w fs st log arbitrary: r log' rule: attach_files.induct)
  case (1 w st log)
  then show ?case by simp
next
  case (2 w file_path rest ps attached_files missing_files log)
  show ?case
  proof (cases "isfile w (log @ [IsFile file_path])")
    case False
    with 2 obtain evs where "log' = (log @ [IsFile file_path]) @ evs"
      "set evs \<subseteq> IsFile ` set rest \<union> ReadFile ` set rest"
      by (fastforce simp add: Let_def)
    then show ?thesis
      by (intro exI [of _ "IsFile file_path # evs"]) auto
  next
    case True
    show ?thesis
    proof (cases "split_ctype (content_type w file_path)")
      case (Inl e)
      with True 2(3) show ?thesis
        by (intro exI [of _ "[IsFile file_path]"]) (auto simp add: Let_def)
    next
      case (Inr mt)
      obtain maintype subtype where mt: "mt = (maintype, subtype)" by (cases mt)
      show ?thesis
      proof (cases "read_file w (log @ [IsFile file_path, ReadFile file_path])")
        case (Inl e)
        with True Inr mt 2(3) show ?thesis
          by (intro exI [of _ "[IsFile file_path, ReadFile file_path]"]) (auto simp add: Let_def)
      next
        case (Inr data)
        with True \<open>split_ctype (content_type w file_path) = Inr mt\<close> mt 2(2) [of _ mt maintype subtype _ data r log'] 2(3)
        obtain evs where "log' = (log @ [IsFile file_path, ReadFile file_path]) @ evs"
          "set evs \<subseteq> IsFile ` set rest \<union> ReadFile ` set rest"
          by (fastforce simp add: Let_def)
        then show ?thesis
          by (intro exI [of _ "IsFile file_path # ReadFile file_path # evs"]) auto
      qed
    qed
  qed
qed


text \<open>The events one SMTP session can add for a message.\<close>

lemma smtp_body_log:
  "smtp_body cfg w to_email cc bcc msg log = (r, log') \<Longrightarrow>
   \<exists>evs. log' = log @ evs
     \<and> set evs \<subseteq> {SmtpStartTLS, SmtpLogin (SMTP_EMAIL cfg) (SMTP_PASSWORD cfg),
                    SmtpSendmail (SMTP_EMAIL cfg) (envelope to_email cc bcc) msg}"
  by (auto simp add: smtp_body_def Let_def split: option.splits)

lemma smtp_session_log:
  "smtp_session cfg w to_email cc bcc msg log = (r, log') \<Longrightarrow>
   \<exists>evs. log' = log @ evs
     \<and> set evs \<subseteq> {SmtpConnect (SMTP_SERVER cfg) (SMTP_PORT cfg), SmtpStartTLS,
                    SmtpLogin (SMTP_EMAIL cfg) (SMTP_PASSWORD cfg),
                    SmtpSendmail (SMTP_EMAIL cfg) (envelope to_email cc bcc) msg, SmtpQuit}"
proof (cases "smtp_connect w (log @ [SmtpConnect (SMTP_SERVER cfg) (SMTP_PORT cfg)])")
  case (Some e)
  assume "smtp_session cfg w to_email cc bcc msg log = (r, log')"
  with Some show ?thesis
    by (intro exI [of _ "[SmtpConnect (SMTP_SERVER cfg) (SMTP_PORT cfg)]"])
       (auto simp add: smtp_session_def Let_def)
next
  case None
  assume run: "smtp_session cfg w to_email cc bcc msg log = (r, log')"
  obtain r2 log2 where body:
    "smtp_body cfg w to_email cc bcc msg (log @ [SmtpConnect (SMTP_SERVER cfg) (SMTP_PORT cfg)])
       = (r2, log2)"
    by (cases "smtp_body cfg w to_email cc bcc msg
                 (log @ [SmtpConnect (SMTP_SERVER cfg) (SMTP_PORT cfg)])")
  from smtp_body_log [OF body] obtain evs where evs:
    "log2 = (log @ [SmtpConnect (SMTP_SERVER cfg) (SMTP_PORT cfg)]) @ evs"
    "set evs \<subseteq> {SmtpStartTLS, SmtpLogin (SMTP_EMAIL cfg) (SMTP_PASSWORD cfg),
                  SmtpSendmail (SMTP_EMAIL cfg) (envelope to_email cc bcc) msg}"
    by blast
  from run None body have "log' = log2 @ [SmtpQuit]"
    by (auto simp add: smtp_session_def Let_def split: option.splits)
  with evs show ?thesis
    by (intro exI [of _ "SmtpConnect (SMTP_SERVER cfg) (SMTP_PORT cfg) # evs @ [SmtpQuit]"]) auto
qed

text \<open>
  One call of \<open>send_email\<close> adds its own mark, file checks and reads of its attachments,
  and the events of one session for one message, whose headers are those of
  \<open>build_headers\<close>.
\<close>

lemma send_email_log:
  assumes "send_email cfg w to_email subject body cc bcc attachments log = (r, log')"
  shows "\<exists>evs ps. log' = log @ SendEmailCall to_email # evs
           \<and> send_calls evs = []
           \<and> set evs \<subseteq> IsFile ` set (items attachments) \<union> ReadFile ` set (items attachments)
                \<union> {SmtpConnect (SMTP_SERVER cfg) (SMTP_PORT cfg), SmtpStartTLS,
                    SmtpLogin (SMTP_EMAIL cfg) (SMTP_PASSWORD cfg),
                    SmtpSendmail (SMTP_EMAIL cfg) (envelope to_email cc bcc)
                      \<lparr>headers = build_headers cfg to_email subject cc, parts = ps\<rparr>,
                    SmtpQuit}"
proof -
  let ?log0 = "log @ [SendEmailCall to_email]"
  let ?st0 = "([TextPart body (lit ''plain'')], [], [])"
  let ?att = "if truthy_list attachments then attach_files w (items attachments) ?st0 ?log0
              else (Inr ?st0, ?log0)"
  obtain ra log1 where att: "?att = (ra, log1)" by (cases ?att)
  have "\<exists>evs1. log1 = ?log0 @ evs1
          \<and> set evs1 \<subseteq> IsFile ` set (items attachments) \<union> ReadFile ` set (items attachments)"
  proof (cases "truthy_list attachments")
    case True
    with att attach_files_log [of w "items attachments" ?st0 ?log0 ra log1] show ?thesis by simp
  next
    case False
    with att show ?thesis by simp
  qed
  then obtain evs1 where evs1: "log1 = ?log0 @ evs1"
    "set evs1 \<subseteq> IsFile ` set (items attachments) \<union> ReadFile ` set (items attachments)"
    by blast
  have no1: "send_calls evs1 = []"
    using evs1(2) by (induction evs1 rule: send_calls.induct) auto
  show ?thesis
  proof (cases "mime_text w body")
    case (Some e)
    with assms have "log' = ?log0"
      by (simp add: send_email_def Let_def)
    then show ?thesis
      by (intro exI [of _ "[]"]) simp
  next
    case None
    show ?thesis
    proof (cases ra)
      case (Inl e)
      with assms att None have "log' = log1"
        by (simp add: send_email_def Let_def)
      with evs1 no1 show ?thesis
        by (intro exI [of _ evs1]) auto
    next
      case (Inr st)
      obtain ps attached_files missing_files where
        st: "st = (ps, attached_files, missing_files)"
        by (cases st)
      let ?msg = "\<lparr>headers = build_headers cfg to_email subject cc, parts = ps\<rparr>"
      obtain r2 log2 where ses: "smtp_session cfg w to_email cc bcc ?msg log1 = (r2, log2)"
        by (cases "smtp_session cfg w to_email cc bcc ?msg log1")
      from smtp_session_log [OF ses] obtain evs2 where evs2: "log2 = log1 @ evs2"
        "set evs2 \<subseteq> {SmtpConnect (SMTP_SERVER cfg) (SMTP_PORT cfg), SmtpStartTLS,
                      SmtpLogin (SMTP_EMAIL cfg) (SMTP_PASSWORD cfg),
                      SmtpSendmail (SMTP_EMAIL cfg) (envelope to_email cc bcc) ?msg, SmtpQuit}"
        by blast
      have no2: "send_calls evs2 = []"
        using evs2(2) by (induction evs2 rule: send_calls.induct) auto
      from assms att None Inr st ses have "log' = log2"
        by (auto simp add: send_email_def Let_def split: option.splits)
      with evs1 evs2 no1 no2 show ?thesis
        by (intro exI [of _ "evs1 @ evs2"] exI [of _ ps]) (auto simp add: send_calls_append)
    qed
  qed
qed


section \<open>The envelope and the headers\<close>

lemma send_email_main_log:
  assumes "send_email_main cfg w to_email subject body cc bcc log = (r, log')"
  shows "\<exists>evs. log' = log @ SendEmailCall to_email # evs
           \<and> send_calls evs = []
           \<and> set evs \<subseteq> {SmtpConnect (SMTP_SERVER cfg) (SMTP_PORT cfg), SmtpStartTLS,
                    SmtpLogin (SMTP_EMAIL cfg) (SMTP_PASSWORD cfg),
                    SmtpSendmail (SMTP_EMAIL cfg) (envelope to_email cc bcc)
                      \<lparr>headers = build_headers cfg to_email subject cc,
                       parts = [TextPart body (lit ''plain'')]\<rparr>,
                    SmtpQuit}"
proof -
  let ?msg = "\<lparr>headers = build_headers cfg to_email subject cc,
               parts = [TextPart body (lit ''plain'')]\<rparr>"
  obtain r2 log2 where ses:
    "smtp_session cfg w to_email cc bcc ?msg (log @ [SendEmailCall to_email]) = (r2, log2)"
    by (cases "smtp_session cfg w to_email cc bcc ?msg (log @ [SendEmailCall to_email])")
  from smtp_session_log [OF ses] obtain evs where evs:
    "log2 = (log @ [SendEmailCall to_email]) @ evs"
    "set evs \<subseteq> {SmtpConnect (SMTP_SERVER cfg) (SMTP_PORT cfg), SmtpStartTLS,
                  SmtpLogin (SMTP_EMAIL cfg) (SMTP_PASSWORD cfg),
                  SmtpSendmail (SMTP_EMAIL cfg) (envelope to_email cc bcc) ?msg, SmtpQuit}"
    by blast
  have no: "send_calls evs = []"
    using evs(2) by (induction evs rule: send_calls.induct) auto
  show ?thesis
  proof (cases "mime_text w body")
    case (Some e)
    with assms have "log' = log @ [SendEmailCall to_email]"
      by (simp add: send_email_main_def Let_def)
    then show ?thesis
      by (intro exI [of _ "[]"]) simp
  next
    case None
    with assms ses have "log' = log2"
      by (auto simp add: send_email_main_def Let_def split: option.splits)
    with evs no show ?thesis
      by (intro exI [of _ evs]) auto
  qed
qed

lemma envelope_eq: "envelope to_email cc bcc = to_email # items cc @ items bcc"
  by (cases cc; cases bcc) (auto simp add: envelope_def)

lemma build_headers_names:
  "map fst (build_headers cfg to_email subject cc)
     = [lit ''Content-Type'', lit ''MIME-Version'', lit ''From'', lit ''To'', lit ''Subject'']
       @ (if truthy_list cc then [lit ''Cc''] else [])"
  by (simp add: build_headers_def)

lemma build_headers_no_bcc:
  "lit ''Bcc'' \<notin> fst ` set (build_headers cfg to_email subject cc)"
proof -
  have "lit ''Bcc'' \<notin> set (map fst (build_headers cfg to_email subject cc))"
    unfolding build_headers_names by (simp add: lit_def)
  then show ?thesis by simp
qed

lemma build_headers_cc:
  "truthy_list cc \<Longrightarrow>
   map_of (build_headers cfg to_email subject cc) (lit ''Cc'')
     = Some (JString (py_join (lit '', '') (items cc)))"
  by (simp add: build_headers_def lit_def)

lemma attach_files_guard:
  "(if truthy_list attachments then attach_files w (items attachments) st log
    else (Inr st, log)) = attach_files w (items attachments) st log"
  by (cases attachments) auto

lemma smtp_session_reaches:
  assumes "reaches_sendmail cfg w msg log"
  shows "SmtpSendmail (SMTP_EMAIL cfg) (envelope to_email cc bcc) msg
           \<in> set (drop (length log) (snd (smtp_session cfg w to_email cc bcc msg log)))"
  using assms
  by (auto simp add: reaches_sendmail_def smtp_session_def smtp_body_def Let_def
           split: option.splits)

lemma drop_further: "x \<in> set (drop (length (xs @ ys)) zs) \<Longrightarrow> x \<in> set (drop (length xs) zs)"
  by (metis append_eq_conv_conj drop_drop in_set_dropD length_append add.commute)

lemma send_email_main_reaches:
  assumes "mime_text w body = None"
    and "reaches_sendmail cfg w
           \<lparr>headers = build_headers cfg to_email subject cc,
            parts = [TextPart body (lit ''plain'')]\<rparr>
           (log @ [SendEmailCall to_email])"
  shows "SmtpSendmail (SMTP_EMAIL cfg) (to_email # items cc @ items bcc)
           \<lparr>headers = build_headers cfg to_email subject cc,
            parts = [TextPart body (lit ''plain'')]\<rparr>
           \<in> set (drop (length log)
                 (snd (send_email_main cfg w to_email subject body cc bcc log)))"
proof -
  let ?msg = "\<lparr>headers = build_headers cfg to_email subject cc,
               parts = [TextPart body (lit ''plain'')]\<rparr>"
  let ?log0 = "log @ [SendEmailCall to_email]"
  have "snd (send_email_main cfg w to_email subject body cc bcc log)
          = snd (smtp_session cfg w to_email cc bcc ?msg ?log0)"
    using assms(1)
    by (simp add: send_email_main_def Let_def split: prod.splits option.splits)
  with smtp_session_reaches [OF assms(2), of to_email cc bcc]
  have "SmtpSendmail (SMTP_EMAIL cfg) (envelope to_email cc bcc) ?msg
          \<in> set (drop (length ?log0)
                (snd (send_email_main cfg w to_email subject body cc bcc log)))"
    by simp
  then show ?thesis
    unfolding envelope_eq by (rule drop_further)
qed

lemma send_email_reaches:
  assumes "mime_text w body = None"
    and "attach_files w (items attachments) ([TextPart body (lit ''plain'')], [], [])
           (log @ [SendEmailCall to_email]) = (Inr (ps, attached_files, missing_files), log1)"
    and "reaches_sendmail cfg w
           \<lparr>headers = build_headers cfg to_email subject cc, parts = ps\<rparr> log1"
  shows "SmtpSendmail (SMTP_EMAIL cfg) (to_email # items cc @ items bcc)
           \<lparr>headers = build_headers cfg to_email subject cc, parts = ps\<rparr>
           \<in> set (drop (length log)
                 (snd (send_email cfg w to_email subject body cc bcc attachments log)))"
proof -
  let ?msg = "\<lparr>headers = build_headers cfg to_email subject cc, parts = ps\<rparr>"
  from attach_files_log [OF assms(2)] obtain evs where
    evs: "log1 = (log @ [SendEmailCall to_email]) @ evs"
    by blast
  have "snd (send_email cfg w to_email subject body cc bcc attachments log)
          = snd (smtp_session cfg w to_email cc bcc ?msg log1)"
    using assms(1,2)
    by (simp add: send_email_def attach_files_guard Let_def split: prod.splits option.splits)
  with smtp_session_reaches [OF assms(3), of to_email cc bcc]
  have "SmtpSendmail (SMTP_EMAIL cfg) (envelope to_email cc bcc) ?msg
          \<in> set (drop (length ((log @ [SendEmailCall to_email]) @ evs))
                (snd (send_email cfg w to_email subject body cc bcc attachments log)))"
    using evs by simp
  then have "SmtpSendmail (SMTP_EMAIL cfg) (envelope to_email cc bcc) ?msg
          \<in> set (drop (length (log @ [SendEmailCall to_email]))
                (snd (send_email cfg w to_email subject body cc bcc attachments log)))"
    by (rule drop_further)
  then show ?thesis
    unfolding envelope_eq by (rule drop_further)
qed

lemma sendmail_event_shape:
  assumes "SmtpSendmail sender rcpts msg
             \<in> set (drop (length log)
                   (snd (send_email cfg w to_email subject body cc bcc attachments log)))
           \<or> SmtpSendmail sender rcpts msg
             \<in> set (drop (length log)
                   (snd (send_email_main cfg w to_email subject body cc bcc log)))"
  shows "\<exists>ps. rcpts = envelope to_email cc bcc
           \<and> msg = \<lparr>headers = build_headers cfg to_email subject cc, parts = ps\<rparr>"
  using assms
proof
  assume a: "SmtpSendmail sender rcpts msg
             \<in> set (drop (length log)
                   (snd (send_email cfg w to_email subject body cc bcc attachments log)))"
  obtain r log' where run:
    "send_email cfg w to_email subject body cc bcc attachments log = (r, log')"
    by (cases "send_email cfg w to_email subject body cc bcc attachments log")
  from send_email_log [OF run] a run show ?thesis by auto
next
  assume a: "SmtpSendmail sender rcpts msg
             \<in> set (drop (length log)
                   (snd (send_email_main cfg w to_email subject body cc bcc log)))"
  obtain r log' where run: "send_email_main cfg w to_email subject body cc bcc log = (r, log')"
    by (cases "send_email_main cfg w to_email subject body cc bcc log")
  from send_email_main_log [OF run] a run show ?thesis by auto
qed

text \<open>
  C1: \<open>send_email\<close>, in \<open>server.py\<close> and in \<open>main.py\<close>, calls \<open>sendmail\<close> whenever
  nothing raises before (the text part is built, the attachments are processed, the
  connection, \<open>starttls\<close>, \<open>login\<close> and the serialisation succeed), and in every
  \<open>sendmail\<close> call it makes the envelope is the primary recipient, then all of \<open>cc\<close>,
  then all of \<open>bcc\<close>; the message has no \<open>Bcc\<close> header; and a non-empty \<open>cc\<close> is
  written, joined by comma and space, into the \<open>Cc\<close> header (an empty one gives no
  \<open>Cc\<close> header).
\<close>

theorem bcc_in_envelope_not_in_headers:
  "(SmtpSendmail sender rcpts msg
      \<in> set (drop (length log)
            (snd (send_email cfg w to_email subject body cc bcc attachments log)))
    \<or> SmtpSendmail sender rcpts msg
      \<in> set (drop (length log)
            (snd (send_email_main cfg w to_email subject body cc bcc log)))
    \<longrightarrow> rcpts = to_email # items cc @ items bcc
        \<and> lit ''Bcc'' \<notin> fst ` set (headers msg)
        \<and> (truthy_list cc \<longrightarrow>
             map_of (headers msg) (lit ''Cc'')
               = Some (JString (py_join (lit '', '') (items cc))))
        \<and> (\<not> truthy_list cc \<longrightarrow> lit ''Cc'' \<notin> fst ` set (headers msg)))
   \<and> (mime_text w body = None
      \<and> attach_files w (items attachments) ([TextPart body (lit ''plain'')], [], [])
           (log @ [SendEmailCall to_email]) = (Inr (ps, attached_files, missing_files), log1)
      \<and> reaches_sendmail cfg w
           \<lparr>headers = build_headers cfg to_email subject cc, parts = ps\<rparr> log1
      \<longrightarrow> SmtpSendmail (SMTP_EMAIL cfg) (to_email # items cc @ items bcc)
            \<lparr>headers = build_headers cfg to_email subject cc, parts = ps\<rparr>
            \<in> set (drop (length log)
                  (snd (send_email cfg w to_email subject body cc bcc attachments log))))
   \<and> (mime_text w body = None
      \<and> reaches_sendmail cfg w
           \<lparr>headers = build_headers cfg to_email subject cc,
            parts = [TextPart body (lit ''plain'')]\<rparr>
           (log @ [SendEmailCall to_email])
      \<longrightarrow> SmtpSendmail (SMTP_EMAIL cfg) (to_email # items cc @ items bcc)
            \<lparr>headers = build_headers cfg to_email subject cc,
             parts = [TextPart body (lit ''plain'')]\<rparr>
            \<in> set (drop (length log)
                  (snd (send_email_main cfg w to_email subject body cc bcc log))))"
proof (intro conjI impI)
  assume a: "SmtpSendmail sender rcpts msg
      \<in> set (drop (length log)
            (snd (send_email cfg w to_email subject body cc bcc attachments log)))
    \<or> SmtpSendmail sender rcpts msg
      \<in> set (drop (length log)
            (snd (send_email_main cfg w to_email subject body cc bcc log)))"
  from sendmail_event_shape [OF a] obtain ps' where m: "rcpts = envelope to_email cc bcc"
    "msg = \<lparr>headers = build_headers cfg to_email subject cc, parts = ps'\<rparr>"
    by blast
  show "rcpts = to_email # items cc @ items bcc"
    using m by (simp add: envelope_eq)
  show "lit ''Bcc'' \<notin> fst ` set (headers msg)"
    using m build_headers_no_bcc [of cfg to_email subject cc] by simp
  show "map_of (headers msg) (lit ''Cc'') = Some (JString (py_join (lit '', '') (items cc)))"
    if "truthy_list cc"
    using m that build_headers_cc [of cc cfg to_email subject] by simp
  have "\<not> truthy_list cc \<Longrightarrow>
        lit ''Cc'' \<notin> set (map fst (build_headers cfg to_email subject cc))"
    unfolding build_headers_names by (simp add: lit_def)
  then show "lit ''Cc'' \<notin> fst ` set (headers msg)" if "\<not> truthy_list cc"
    using m that by simp
next
  assume "mime_text w body = None
      \<and> attach_files w (items attachments) ([TextPart body (lit ''plain'')], [], [])
           (log @ [SendEmailCall to_email]) = (Inr (ps, attached_files, missing_files), log1)
      \<and> reaches_sendmail cfg w
           \<lparr>headers = build_headers cfg to_email subject cc, parts = ps\<rparr> log1"
  then show "SmtpSendmail (SMTP_EMAIL cfg) (to_email # items cc @ items bcc)
            \<lparr>headers = build_headers cfg to_email subject cc, parts = ps\<rparr>
            \<in> set (drop (length log)
                  (snd (send_email cfg w to_email subject body cc bcc attachments log)))"
    using send_email_reaches by blast
next
  assume "mime_text w body = None
      \<and> reaches_sendmail cfg w
           \<lparr>headers = build_headers cfg to_email subject cc,
            parts = [TextPart body (lit ''plain'')]\<rparr>
           (log @ [SendEmailCall to_email])"
  then show "SmtpSendmail (SMTP_EMAIL cfg) (to_email # items cc @ items bcc)
            \<lparr>headers = build_headers cfg to_email subject cc,
             parts = [TextPart body (lit ''plain'')]\<rparr>
            \<in> set (drop (length log)
                  (snd (send_email_main cfg w to_email subject body cc bcc log)))"
    using send_email_main_reaches by blast
qed

lemma demo_reaches_sendmail:
  "reaches_sendmail (demo_cfg None) (demo_world gen_down loads_none no_files accept accept)
     demo_message [SendEmailCall (lit ''a@x.com'')]"
  by (simp add: reaches_sendmail_def demo_world_def accept_def Let_def)

theorem bcc_in_envelope_not_in_headers_witness:
  "SmtpSendmail (Some (lit ''me@x.com'')) [lit ''a@x.com'', lit ''c@x.com'', lit ''z@x.com'']
     demo_message
     \<in> set (snd (send_email (demo_cfg None)
                   (demo_world gen_down loads_none no_files accept accept)
                   (lit ''a@x.com'') (JString (lit ''S'')) (lit ''B'') (Some [lit ''c@x.com''])
                   (Some [lit ''z@x.com'']) None []))
   \<and> SmtpSendmail (Some (lit ''me@x.com''))
       [lit ''a@x.com'', lit ''c@x.com'', lit ''z@x.com''] demo_message
     \<in> set (snd (send_email_main (demo_cfg None)
                   (demo_world gen_down loads_none no_files accept accept)
                   (lit ''a@x.com'') (JString (lit ''S'')) (lit ''B'') (Some [lit ''c@x.com''])
                   (Some [lit ''z@x.com'']) []))
   \<and> lit ''Bcc'' \<notin> fst ` set (headers demo_message)
   \<and> map_of (headers demo_message) (lit ''Cc'') = Some (JString (lit ''c@x.com''))"
proof -
  let ?cfg = "demo_cfg None"
  let ?w = "demo_world gen_down loads_none no_files accept accept"
  have m: "mime_text ?w (lit ''B'') = None"
    by (simp add: demo_world_def)
  have at: "attach_files ?w (items None) ([TextPart (lit ''B'') (lit ''plain'')], [], [])
              ([] @ [SendEmailCall (lit ''a@x.com'')])
            = (Inr ([TextPart (lit ''B'') (lit ''plain'')], [], []),
               [SendEmailCall (lit ''a@x.com'')])"
    by simp
  have msg: "\<lparr>headers = build_headers ?cfg (lit ''a@x.com'') (JString (lit ''S''))
                          (Some [lit ''c@x.com'']),
              parts = [TextPart (lit ''B'') (lit ''plain'')]\<rparr> = demo_message"
    by (simp add: demo_message_def)
  have sender: "SMTP_EMAIL ?cfg = Some (lit ''me@x.com'')"
    by (simp add: demo_cfg_def)
  note inst = bcc_in_envelope_not_in_headers
    [of "Some (lit ''me@x.com'')" "[lit ''a@x.com'', lit ''c@x.com'', lit ''z@x.com'']"
        demo_message "[]" ?cfg ?w "lit ''a@x.com''" "JString (lit ''S'')" "lit ''B''"
        "Some [lit ''c@x.com'']" "Some [lit ''z@x.com'']" None
        "[TextPart (lit ''B'') (lit ''plain'')]" "[]" "[]" "[SendEmailCall (lit ''a@x.com'')]"]
  have server: "SmtpSendmail (Some (lit ''me@x.com''))
       [lit ''a@x.com'', lit ''c@x.com'', lit ''z@x.com''] demo_message
     \<in> set (snd (send_email ?cfg ?w (lit ''a@x.com'') (JString (lit ''S'')) (lit ''B'')
                   (Some [lit ''c@x.com'']) (Some [lit ''z@x.com'']) None []))"
    using inst m at demo_reaches_sendmail by (simp add: msg sender)
  have main: "SmtpSendmail (Some (lit ''me@x.com''))
       [lit ''a@x.com'', lit ''c@x.com'', lit ''z@x.com''] demo_message
     \<in> set (snd (send_email_main ?cfg ?w (lit ''a@x.com'') (JString (lit ''S'')) (lit ''B'')
                   (Some [lit ''c@x.com'']) (Some [lit ''z@x.com'']) []))"
    using inst m demo_reaches_sendmail by (simp add: msg sender)
  have "lit ''Bcc'' \<notin> fst ` set (headers demo_message)
        \<and> map_of (headers demo_message) (lit ''Cc'')
          = Some (JString (py_join (lit '', '') (items (Some [lit ''c@x.com'']))))"
    using inst main by simp
  with server main show ?thesis
    by simp
qed


section \<open>Padding and pairing of the recipient names\<close>

lemma pad_names_eq: "pad_names names n = names @ replicate (n - length names) []"
proof (induction names n rule: pad_names.induct)
  case (1 name_list n)
  show ?case
  proof (cases "length name_list < n")
    case True
    then have "n - length name_list = Suc (n - Suc (length name_list))" by arith
    with True 1 show ?thesis
      by (subst pad_names.simps) simp
  next
    case False
    then show ?thesis
      by (subst pad_names.simps) simp
  qed
qed

text \<open>
  C7: when the parsed names list is not longer than the parsed recipient list, the names
  the loop uses are the parsed names followed by empty strings up to the number of
  recipients; the loop runs over every recipient, and the i-th recipient is paired with
  the i-th name, or with the empty string when there is no i-th name. These pairs are
  what the loop of \<open>send_professional_email\<close> runs over once the validations pass.
\<close>

theorem names_padded_and_paired:
  assumes "names = (if recipient_names \<noteq> [] then parse_list recipient_names else [])"
    and "recipient_list = parse_list recipients"
    and "length names \<le> length recipient_list"
  shows "padded_names recipients recipient_names
           = names @ replicate (length recipient_list - length names) []
         \<and> map fst (zip recipient_list (padded_names recipients recipient_names))
           = recipient_list
         \<and> (\<forall>i < length recipient_list.
               zip recipient_list (padded_names recipients recipient_names) ! i
                 = (recipient_list ! i, if i < length names then names ! i else []))
         \<and> (recipient_list \<noteq> [] \<and> main_idea \<noteq> [] \<and> truthy (SMTP_EMAIL cfg)
              \<and> truthy (SMTP_PASSWORD cfg) \<longrightarrow>
            snd (send_professional_email cfg w main_idea recipients tone cc bcc attachments
                   recipient_names log)
              = snd (send_loop cfg w main_idea tone (parse_opt_list cc) (parse_opt_list bcc)
                       (parse_attachments w attachments)
                       (zip recipient_list
                          (names @ replicate (length recipient_list - length names) []))
                       log))"
proof -
  have p: "padded_names recipients recipient_names
           = names @ replicate (length recipient_list - length names) []"
    using assms(1,2) by (simp add: padded_names_def pad_names_eq)
  have l: "length (padded_names recipients recipient_names) = length recipient_list"
    using assms(3) by (simp add: p)
  have n: "\<forall>i < length recipient_list.
             padded_names recipients recipient_names ! i
               = (if i < length names then names ! i else [])"
    using assms(3) by (auto simp add: p nth_append)
  have s: "recipient_list \<noteq> [] \<and> main_idea \<noteq> [] \<and> truthy (SMTP_EMAIL cfg)
              \<and> truthy (SMTP_PASSWORD cfg) \<longrightarrow>
            snd (send_professional_email cfg w main_idea recipients tone cc bcc attachments
                   recipient_names log)
              = snd (send_loop cfg w main_idea tone (parse_opt_list cc) (parse_opt_list bcc)
                       (parse_attachments w attachments)
                       (zip recipient_list
                          (names @ replicate (length recipient_list - length names) []))
                       log)"
    using assms(2) p
    by (auto simp add: send_professional_email_def Let_def split: prod.splits)
  show ?thesis
    using p l n s by (simp add: map_fst_zip)
qed

lemma parse_two_recipients:
  "parse_list (lit ''a@x.com, b@x.com'') = [lit ''a@x.com'', lit ''b@x.com'']"
  by (simp add: parse_list_def py_split_def py_strip_def py_isspace_def lit_def)

lemma parse_one_name: "parse_list (lit ''Alice'') = [lit ''Alice'']"
  by (simp add: parse_list_def py_split_def py_strip_def py_isspace_def lit_def)

theorem names_padded_and_paired_witness:
  "length [lit ''Alice''] \<le> length [lit ''a@x.com'', lit ''b@x.com'']
   \<and> zip (parse_list (lit ''a@x.com, b@x.com''))
         (padded_names (lit ''a@x.com, b@x.com'') (lit ''Alice''))
     = [(lit ''a@x.com'', lit ''Alice''), (lit ''b@x.com'', [])]"
proof -
  have n: "[lit ''Alice''] = (if lit ''Alice'' \<noteq> [] then parse_list (lit ''Alice'') else [])"
    by (simp add: parse_one_name) (simp add: lit_def)
  have r: "[lit ''a@x.com'', lit ''b@x.com''] = parse_list (lit ''a@x.com, b@x.com'')"
    by (simp add: parse_two_recipients)
  have l: "length [lit ''Alice''] \<le> length [lit ''a@x.com'', lit ''b@x.com'']"
    by simp
  from names_padded_and_paired [OF n r l] show ?thesis
    by (simp add: parse_two_recipients)
qed

section \<open>What the loop over the recipients adds to the log\<close>

lemma enhance_log:
  assumes "enhance_email_with_ai cfg w log main_idea tone recipient_name = (r, log')"
  shows "\<exists>evs. log' = log @ evs \<and> (\<forall>ev \<in> set evs. \<exists>m p. ev = GenerateContent m p)"
proof (cases "truthy (GEMINI_API_KEY cfg)")
  case False
  with assms have "log' = log"
    by (simp add: enhance_email_with_ai_def enhance_try_def)
  then show ?thesis by simp
next
  case True
  with assms have "log' = log @ [GenerateContent (lit ''gemini-2.5-flash'')
                                   (build_prompt main_idea tone recipient_name)]"
    by (auto simp add: enhance_email_with_ai_def enhance_try_def Let_def split: sum.splits)
  then show ?thesis by simp
qed

lemma generate_no_send_calls:
  "\<forall>ev \<in> set evs. \<exists>m p. ev = GenerateContent m p \<Longrightarrow> send_calls evs = []"
  by (induction evs rule: send_calls.induct) auto

text \<open>
  One round of the loop: at most one send attempt, to the recipient of the round, and
  exactly one when the four fields can be read from the enhanced email; file checks only
  on the attachment list; and the entry of \<open>email_contents\<close> names the recipient.
\<close>

lemma process_recipient_log:
  assumes "process_recipient cfg w main_idea tone cc_list bcc_list attachment_list recipient
             recipient_name log = ((res, content), log')"
  shows "\<exists>evs. log' = log @ evs
           \<and> (send_calls evs = [] \<or> send_calls evs = [recipient])
           \<and> ((\<exists>v. enhanced_fields w
                      (fst (enhance_email_with_ai cfg w log main_idea tone recipient_name))
                    = Inr v)
                \<longrightarrow> send_calls evs = [recipient])
           \<and> (\<forall>q. IsFile q \<in> set evs \<longrightarrow> q \<in> set (items attachment_list))
           \<and> c_recipient content = recipient"
proof -
  obtain enhanced log1 where en:
    "enhance_email_with_ai cfg w log main_idea tone recipient_name = (enhanced, log1)"
    by (cases "enhance_email_with_ai cfg w log main_idea tone recipient_name")
  from enhance_log [OF en] obtain evs1 where evs1: "log1 = log @ evs1"
    "\<forall>ev \<in> set evs1. \<exists>m p. ev = GenerateContent m p"
    by blast
  have no1: "send_calls evs1 = []"
    using evs1(2) by (rule generate_no_send_calls)
  have nf1: "\<And>q. IsFile q \<notin> set evs1"
    using evs1(2) by auto
  show ?thesis
  proof (cases "enhanced_fields w enhanced")
    case (Inl e)
    with assms en have "log' = log1" "c_recipient content = recipient"
      by (auto simp add: process_recipient_def)
    with evs1 no1 nf1 en Inl show ?thesis
      by (intro exI [of _ evs1]) auto
  next
    case (Inr v)
    obtain subject greeting body_text closing where
      v: "v = (subject, greeting, body_text, closing)"
      by (cases v) auto
    obtain r2 log2 where se:
      "send_email cfg w recipient subject (full_body_of cfg w greeting body_text closing)
         cc_list bcc_list attachment_list log1 = (r2, log2)"
      by (cases "send_email cfg w recipient subject
                   (full_body_of cfg w greeting body_text closing)
                   cc_list bcc_list attachment_list log1")
    from send_email_log [OF se] obtain evs2 ps where evs2:
      "log2 = log1 @ SendEmailCall recipient # evs2" "send_calls evs2 = []"
      "set evs2 \<subseteq> IsFile ` set (items attachment_list) \<union> ReadFile ` set (items attachment_list)
                \<union> {SmtpConnect (SMTP_SERVER cfg) (SMTP_PORT cfg), SmtpStartTLS,
                    SmtpLogin (SMTP_EMAIL cfg) (SMTP_PASSWORD cfg),
                    SmtpSendmail (SMTP_EMAIL cfg) (envelope recipient cc_list bcc_list)
                      \<lparr>headers = build_headers cfg recipient subject cc_list, parts = ps\<rparr>,
                    SmtpQuit}"
      by blast
    from assms en Inr v se have "log' = log2" "c_recipient content = recipient"
      by (auto simp add: process_recipient_def Let_def)
    with evs1 evs2 no1 nf1 show ?thesis
      by (intro exI [of _ "evs1 @ SendEmailCall recipient # evs2"])
         (auto simp add: send_calls_append)
  qed
qed

lemma send_loop_log:
  assumes "send_loop cfg w main_idea tone cc_list bcc_list attachment_list pairs log = (rs, log')"
  shows "\<exists>evs. log' = log @ evs
           \<and> subseq (send_calls evs) (map fst pairs)
           \<and> (\<forall>q. IsFile q \<in> set evs \<longrightarrow> q \<in> set (items attachment_list))
           \<and> map (\<lambda>r. c_recipient (snd r)) rs = map fst pairs"
  using assms
proof (induction pairs arbitrary: log rs log')
  case Nil
  then show ?case by simp
next
  case (Cons pair rest)
  obtain recipient recipient_name where pair: "pair = (recipient, recipient_name)"
    by (cases pair)
  obtain res content log1 where pr:
    "process_recipient cfg w main_idea tone cc_list bcc_list attachment_list recipient
       recipient_name log = ((res, content), log1)"
    by (cases "process_recipient cfg w main_idea tone cc_list bcc_list attachment_list recipient
                 recipient_name log") auto
  obtain rs2 log2 where sl:
    "send_loop cfg w main_idea tone cc_list bcc_list attachment_list rest log1 = (rs2, log2)"
    by (cases "send_loop cfg w main_idea tone cc_list bcc_list attachment_list rest log1")
  from Cons.prems pair pr sl have eq: "rs = (res, content) # rs2" "log' = log2"
    by auto
  from process_recipient_log [OF pr] obtain evs1 where evs1: "log1 = log @ evs1"
    "send_calls evs1 = [] \<or> send_calls evs1 = [recipient]"
    "\<forall>q. IsFile q \<in> set evs1 \<longrightarrow> q \<in> set (items attachment_list)"
    "c_recipient content = recipient"
    by blast
  from Cons.IH [OF sl] obtain evs2 where evs2: "log2 = log1 @ evs2"
    "subseq (send_calls evs2) (map fst rest)"
    "\<forall>q. IsFile q \<in> set evs2 \<longrightarrow> q \<in> set (items attachment_list)"
    "map (\<lambda>r. c_recipient (snd r)) rs2 = map fst rest"
    by blast
  have "subseq (send_calls (evs1 @ evs2)) (map fst (pair # rest))"
    using evs1(2) evs2(2) pair by (auto simp add: send_calls_append)
  with eq evs1 evs2 pair show ?case
    by (intro exI [of _ "evs1 @ evs2"]) auto
qed


section \<open>Where a relative attachment path is looked for\<close>

lemma resolve_paths_set:
  "q \<in> set (resolve_paths w ps) \<Longrightarrow>
   \<exists>p \<in> set ps. py_strip p \<noteq> [] \<and> q = resolve_path w (py_strip p)"
  by (induction ps) (auto simp add: Let_def split: if_splits)

lemma parse_attachments_set:
  "q \<in> set (items (parse_attachments w attachments)) \<Longrightarrow>
   \<exists>p \<in> set (py_split (lit '','') attachments).
      py_strip p \<noteq> [] \<and> q = resolve_path w (py_strip p)"
  by (auto simp add: parse_attachments_def Let_def split: if_splits dest: resolve_paths_set)

lemma resolve_paths_map:
  "resolve_paths w ps
   = map (resolve_path w) (filter (\<lambda>p. p \<noteq> []) (map py_strip ps))"
  by (induction ps) (simp_all add: Let_def)

lemma parse_attachments_items:
  "items (parse_attachments w attachments)
   = map (resolve_path w)
       (filter (\<lambda>p. p \<noteq> []) (map py_strip (py_split (lit '','') attachments)))"
proof (cases "attachments = []")
  case True
  then show ?thesis
    by (simp add: parse_attachments_def py_split_def py_strip_def)
next
  case False
  then show ?thesis
    by (simp add: parse_attachments_def resolve_paths_map Let_def)
qed

text \<open>
  C8, as the code has it. The attachment list that \<open>send_professional_email\<close> hands to
  \<open>send_email\<close> holds the comma-separated pieces of \<open>attachments\<close>, stripped, the empty
  ones dropped, each used as it is when absolute and otherwise joined to the directory
  of the module, \<open>os.path.dirname(__file__)\<close>; every file-existence check of the call
  is made on such a path. \<open>save_temp_file\<close> writes to the subdirectory
  \<open>temp_attachments\<close> of that directory, not to the directory itself.
\<close>

theorem attachment_paths_resolved_against_module_dir:
  "(IsFile q
      \<in> set (drop (length log)
            (snd (send_professional_email cfg w main_idea recipients tone cc bcc
                    attachments recipient_names log))) \<longrightarrow>
    (\<exists>p \<in> set (py_split (lit '','') attachments).
        py_strip p \<noteq> []
        \<and> q = (if path_isabs w (py_strip p) then py_strip p
               else path_join w (module_dir w) (py_strip p))))
   \<and> items (parse_attachments w attachments)
     = map (\<lambda>p. if path_isabs w p then p else path_join w (module_dir w) p)
         (filter (\<lambda>p. p \<noteq> []) (map py_strip (py_split (lit '','') attachments)))
   \<and> save_temp_file_path w filename
     = path_join w (path_join w (module_dir w) (lit ''temp_attachments'')) filename"
proof (intro conjI impI)
  assume asm: "IsFile q
      \<in> set (drop (length log)
            (snd (send_professional_email cfg w main_idea recipients tone cc bcc
                    attachments recipient_names log)))"
  let ?pairs = "zip (parse_list recipients) (padded_names recipients recipient_names)"
  obtain rs log' where sl:
    "send_loop cfg w main_idea tone (parse_opt_list cc) (parse_opt_list bcc)
       (parse_attachments w attachments) ?pairs log = (rs, log')"
    by (cases "send_loop cfg w main_idea tone (parse_opt_list cc) (parse_opt_list bcc)
                 (parse_attachments w attachments) ?pairs log")
  from send_loop_log [OF sl] obtain evs where evs: "log' = log @ evs"
    "\<forall>q. IsFile q \<in> set evs \<longrightarrow> q \<in> set (items (parse_attachments w attachments))"
    by blast
  have "snd (send_professional_email cfg w main_idea recipients tone cc bcc attachments
               recipient_names log) = log
        \<or> snd (send_professional_email cfg w main_idea recipients tone cc bcc attachments
               recipient_names log) = log'"
    using sl by (simp add: send_professional_email_def Let_def)
  with asm evs have "q \<in> set (items (parse_attachments w attachments))"
    by auto
  from parse_attachments_set [OF this]
  show "\<exists>p \<in> set (py_split (lit '','') attachments).
          py_strip p \<noteq> []
          \<and> q = (if path_isabs w (py_strip p) then py_strip p
                 else path_join w (module_dir w) (py_strip p))"
    by (auto simp add: resolve_path_def)
next
  have "resolve_path w = (\<lambda>p. if path_isabs w p then p else path_join w (module_dir w) p)"
    by (auto simp add: resolve_path_def)
  then show "items (parse_attachments w attachments)
     = map (\<lambda>p. if path_isabs w p then p else path_join w (module_dir w) p)
         (filter (\<lambda>p. p \<noteq> []) (map py_strip (py_split (lit '','') attachments)))"
    by (simp add: parse_attachments_items)
next
  show "save_temp_file_path w filename
     = path_join w (path_join w (module_dir w) (lit ''temp_attachments'')) filename"
    by (simp add: save_temp_file_path_def temp_dir_def)
qed

lemma demo_relative_attachment_log:
  "snd (send_professional_email (demo_cfg None)
          (demo_world gen_down loads_none no_files accept accept)
          (lit ''hi'') (lit ''a@x.com'') (lit ''professional'') [] [] (lit ''report.pdf'') [] [])
   = [SendEmailCall (lit ''a@x.com''), IsFile (lit ''/app/report.pdf''),
      SmtpConnect (lit ''smtp.gmail.com'') 587, SmtpStartTLS,
      SmtpLogin (Some (lit ''me@x.com'')) (Some (lit ''pw'')),
      SmtpSendmail (Some (lit ''me@x.com'')) [lit ''a@x.com'']
        \<lparr>headers = build_headers (demo_cfg None) (lit ''a@x.com'')
                     (JString (lit ''Update: hi'')) None,
         parts = [TextPart
                    (full_body_of (demo_cfg None)
                       (demo_world gen_down loads_none no_files accept accept)
                       (JString (lit ''Hello,''))
                       (JString (lit ''I wanted to reach out regarding: hi'' @ nl @ nl
                                 @ lit ''Please let me know if you have any questions.''))
                       (JString (lit ''Best regards'')))
                    (lit ''plain'')]\<rparr>,
      SmtpQuit]"
  by (simp add: send_professional_email_def parse_list_def py_split_def py_strip_def
        py_isspace_def padded_names_def pad_names.simps parse_opt_list_def
        parse_attachments_def resolve_path_def process_recipient_def
        enhance_email_with_ai_def enhance_try_def fallback_email_def enhanced_fields_def
        send_email_def smtp_session_def smtp_body_def envelope_def
        demo_world_def demo_cfg_def accept_def demo_isfile_def no_files_def
        posix_isabs_def posix_join_def suffix_to_prefix full_body_of_def build_headers_def
        Let_def lit_def nl_def)

theorem relative_path_checked_outside_staging:
  "IsFile (lit ''/app/report.pdf'')
     \<in> set (snd (send_professional_email (demo_cfg None)
                   (demo_world gen_down loads_none no_files accept accept)
                   (lit ''hi'') (lit ''a@x.com'') (lit ''professional'') [] []
                   (lit ''report.pdf'') [] []))
   \<and> IsFile (save_temp_file_path (demo_world gen_down loads_none no_files accept accept)
               (lit ''report.pdf''))
     \<notin> set (snd (send_professional_email (demo_cfg None)
                   (demo_world gen_down loads_none no_files accept accept)
                   (lit ''hi'') (lit ''a@x.com'') (lit ''professional'') [] []
                   (lit ''report.pdf'') [] []))
   \<and> save_temp_file_path (demo_world gen_down loads_none no_files accept accept)
        (lit ''report.pdf'') = lit ''/app/temp_attachments/report.pdf''
   \<and> \<not> path_isabs (demo_world gen_down loads_none no_files accept accept) (lit ''report.pdf'')"
proof -
  have p: "save_temp_file_path (demo_world gen_down loads_none no_files accept accept)
        (lit ''report.pdf'') = lit ''/app/temp_attachments/report.pdf''"
    by (simp add: save_temp_file_path_def temp_dir_def demo_world_def posix_join_def
          suffix_to_prefix lit_def)
  have r: "\<not> path_isabs (demo_world gen_down loads_none no_files accept accept)
              (lit ''report.pdf'')"
    by (simp add: demo_world_def posix_isabs_def lit_def)
  have n: "lit ''/app/temp_attachments/report.pdf'' \<noteq> lit ''/app/report.pdf''"
    by (simp add: lit_def)
  show ?thesis
    unfolding demo_relative_attachment_log p using r n by simp
qed

theorem attachment_paths_resolved_against_module_dir_witness:
  "IsFile (lit ''/app/report.pdf'')
     \<in> set (drop (length ([] :: event list))
          (snd (send_professional_email (demo_cfg None)
                   (demo_world gen_down loads_none no_files accept accept)
                   (lit ''hi'') (lit ''a@x.com'') (lit ''professional'') [] []
                   (lit ''report.pdf'') [] [])))
   \<and> (\<exists>p \<in> set (py_split (lit '','') (lit ''report.pdf'')).
         py_strip p \<noteq> []
         \<and> lit ''/app/report.pdf''
           = (if path_isabs (demo_world gen_down loads_none no_files accept accept) (py_strip p)
              then py_strip p
              else path_join (demo_world gen_down loads_none no_files accept accept)
                     (module_dir (demo_world gen_down loads_none no_files accept accept))
                     (py_strip p)))"
proof -
  have a: "IsFile (lit ''/app/report.pdf'')
     \<in> set (drop (length ([] :: event list))
          (snd (send_professional_email (demo_cfg None)
                   (demo_world gen_down loads_none no_files accept accept)
                   (lit ''hi'') (lit ''a@x.com'') (lit ''professional'') [] []
                   (lit ''report.pdf'') [] [])))"
    by (simp add: demo_relative_attachment_log)
  from attachment_paths_resolved_against_module_dir [THEN conjunct1, THEN mp, OF a] a
  show ?thesis
    by blast
qed

section \<open>Missing attachments\<close>

lemma checks_append:
  "checked_paths (xs @ ys) = checked_paths xs @ checked_paths ys"
  "failed_checks w log (xs @ ys) = failed_checks w log xs @ failed_checks w (log @ xs) ys"
  "passed_checks w log (xs @ ys) = passed_checks w log xs @ passed_checks w (log @ xs) ys"
proof -
  show "checked_paths (xs @ ys) = checked_paths xs @ checked_paths ys"
    by (induction xs rule: checked_paths.induct) auto
  show "failed_checks w log (xs @ ys) = failed_checks w log xs @ failed_checks w (log @ xs) ys"
    by (induction w log xs rule: failed_checks.induct) auto
  show "passed_checks w log (xs @ ys) = passed_checks w log xs @ passed_checks w (log @ xs) ys"
    by (induction w log xs rule: passed_checks.induct) auto
qed

lemma no_checks:
  assumes "\<forall>p. IsFile p \<notin> set evs"
  shows "checked_paths evs = []" and "failed_checks w log evs = []"
    and "passed_checks w log evs = []"
proof -
  show "checked_paths evs = []"
    using assms by (induction evs rule: checked_paths.induct) auto
  show "failed_checks w log evs = []"
    using assms by (induction w log evs rule: failed_checks.induct) auto
  show "passed_checks w log evs = []"
    using assms by (induction w log evs rule: passed_checks.induct) auto
qed

text \<open>
  The attachment loop, when it ends without an exception: every attachment is checked,
  in order; a path whose check fails goes to \<open>missing_files\<close> and gets no part; a path
  whose check passes gets a part and goes to \<open>attached_files\<close>.
\<close>

lemma attach_files_checks:
  assumes "attach_files w fs (ps, attached_files, missing_files) log = (Inr st', log')"
  shows "\<exists>evs fps. log' = log @ evs \<and> checked_paths evs = fs
           \<and> set evs \<subseteq> IsFile ` set fs \<union> ReadFile ` set fs
           \<and> st' = (ps @ fps,
                    attached_files @ map (path_basename w) (passed_checks w log evs),
                    missing_files @ failed_checks w log evs)
           \<and> map file_name_of fps
             = map (\<lambda>p. Some (path_basename w p)) (passed_checks w log evs)"
  using assms
proof (induction fs arbitrary: ps attached_files missing_files log)
  case Nil
  then show ?case by simp
next
  case (Cons file_path rest)
  show ?case
  proof (cases "isfile w (log @ [IsFile file_path])")
    case False
    with Cons.prems have
      "attach_files w rest (ps, attached_files, missing_files @ [file_path])
         (log @ [IsFile file_path]) = (Inr st', log')"
      by (simp add: Let_def)
    from Cons.IH [OF this] obtain evs fps where
      "log' = (log @ [IsFile file_path]) @ evs" "checked_paths evs = rest"
      "set evs \<subseteq> IsFile ` set rest \<union> ReadFile ` set rest"
      "st' = (ps @ fps,
              attached_files
                @ map (path_basename w) (passed_checks w (log @ [IsFile file_path]) evs),
              (missing_files @ [file_path])
                @ failed_checks w (log @ [IsFile file_path]) evs)"
      "map file_name_of fps
         = map (\<lambda>p. Some (path_basename w p))
             (passed_checks w (log @ [IsFile file_path]) evs)"
      by blast
    with False show ?thesis
      by (intro exI [of _ "IsFile file_path # evs"] exI [of _ fps]) auto
  next
    case True
    with Cons.prems obtain maintype subtype data where
      "attach_files w rest
         (ps @ [FilePart maintype subtype data (path_basename w file_path)],
          attached_files @ [path_basename w file_path], missing_files)
         (log @ [IsFile file_path] @ [ReadFile file_path]) = (Inr st', log')"
      by (auto simp add: Let_def split: sum.splits)
    from Cons.IH [OF this] obtain evs fps where
      "log' = (log @ [IsFile file_path] @ [ReadFile file_path]) @ evs"
      "checked_paths evs = rest"
      "set evs \<subseteq> IsFile ` set rest \<union> ReadFile ` set rest"
      "st' = ((ps @ [FilePart maintype subtype data (path_basename w file_path)]) @ fps,
              (attached_files @ [path_basename w file_path])
                @ map (path_basename w)
                    (passed_checks w (log @ [IsFile file_path] @ [ReadFile file_path]) evs),
              missing_files
                @ failed_checks w (log @ [IsFile file_path] @ [ReadFile file_path]) evs)"
      "map file_name_of fps
         = map (\<lambda>p. Some (path_basename w p))
             (passed_checks w (log @ [IsFile file_path] @ [ReadFile file_path]) evs)"
      by blast
    with True show ?thesis
      by (intro exI [of _ "IsFile file_path # ReadFile file_path # evs"]
                exI [of _ "FilePart maintype subtype data (path_basename w file_path) # fps"])
         auto
  qed
qed

text \<open>Only a file that exists can stop the loop.\<close>

lemma attach_files_total:
  assumes "\<forall>p \<in> set fs. \<forall>l. isfile w (l @ [IsFile p]) \<longrightarrow>
             (\<exists>mt. split_ctype (content_type w p) = Inr mt)
             \<and> (\<exists>d. read_file w (l @ [IsFile p, ReadFile p]) = Inr d)"
  shows "\<exists>st'. fst (attach_files w fs st log) = Inr st'"
  using assms
proof (induction fs arbitrary: st log)
  case Nil
  show ?case by (intro exI [of _ st]) simp
next
  case (Cons file_path rest)
  obtain ps attached_files missing_files where st: "st = (ps, attached_files, missing_files)"
    by (cases st) auto
  have "\<forall>p \<in> set rest. \<forall>l. isfile w (l @ [IsFile p]) \<longrightarrow>
          (\<exists>mt. split_ctype (content_type w p) = Inr mt)
          \<and> (\<exists>d. read_file w (l @ [IsFile p, ReadFile p]) = Inr d)"
    using Cons.prems by simp
  from Cons.IH [OF this]
  have ih: "\<exists>st'. fst (attach_files w rest st log) = Inr st'" for st log .
  show ?case
  proof (cases "isfile w (log @ [IsFile file_path])")
    case False
    with ih st show ?thesis
      by (simp add: Let_def)
  next
    case True
    with Cons.prems obtain maintype subtype data where
      "split_ctype (content_type w file_path) = Inr (maintype, subtype)"
      "read_file w (log @ [IsFile file_path, ReadFile file_path]) = Inr data"
      by (metis list.set_intros(1) surj_pair)
    with True ih st show ?thesis
      by (simp add: Let_def)
  qed
qed

lemma smtp_session_connects:
  "\<exists>evs. snd (smtp_session cfg w to_email cc bcc msg log)
           = log @ SmtpConnect (SMTP_SERVER cfg) (SMTP_PORT cfg) # evs"
  by (auto simp add: smtp_session_def Let_def split: option.splits prod.splits
           dest!: smtp_body_log)

text \<open>
  C5, as the code has it. A path whose file check fails at send time gets no part in
  the message, and the loop goes on: \<open>send_email\<close> opens the SMTP connection whenever
  the text part can be built and every attachment that does exist has a MIME type that
  splits and can be read, whichever attachments are missing. A successful outcome lists
  under \<open>missing\<close> exactly the attachments whose check failed, in order (every
  attachment has then been checked); an outcome that is not a success has no such list.
\<close>

theorem missing_attachment_never_aborts:
  assumes "send_email cfg w to_email subject body cc bcc attachments log = (r, log')"
  shows "(status r = lit ''success'' \<longrightarrow>
            checked_paths (drop (length log) log') = items attachments
            \<and> missing r = Some (failed_checks w log (drop (length log) log')))
         \<and> (status r \<noteq> lit ''success'' \<longrightarrow> missing r = None)
         \<and> (\<forall>sender rcpts msg.
               SmtpSendmail sender rcpts msg \<in> set (drop (length log) log') \<longrightarrow>
               (\<exists>fps. parts msg = TextPart body (lit ''plain'') # fps
                  \<and> map file_name_of fps
                    = map (\<lambda>p. Some (path_basename w p))
                        (passed_checks w log (drop (length log) log'))))
         \<and> (mime_text w body = None
              \<and> (\<forall>p \<in> set (items attachments). \<forall>l. isfile w (l @ [IsFile p]) \<longrightarrow>
                    (\<exists>mt. split_ctype (content_type w p) = Inr mt)
                    \<and> (\<exists>d. read_file w (l @ [IsFile p, ReadFile p]) = Inr d))
              \<longrightarrow> SmtpConnect (SMTP_SERVER cfg) (SMTP_PORT cfg)
                    \<in> set (drop (length log) log'))"
proof -
  let ?log0 = "log @ [SendEmailCall to_email]"
  let ?st0 = "([TextPart body (lit ''plain'')], [], []) :: attach_state"
  let ?readable = "\<forall>p \<in> set (items attachments). \<forall>l. isfile w (l @ [IsFile p]) \<longrightarrow>
                    (\<exists>mt. split_ctype (content_type w p) = Inr mt)
                    \<and> (\<exists>d. read_file w (l @ [IsFile p, ReadFile p]) = Inr d)"
  have ne: "lit ''error'' \<noteq> lit ''success''"
    by (simp add: lit_def)
  show ?thesis
  proof (cases "mime_text w body")
    case (Some e)
    with assms have "r = error_outcome to_email e" "log' = ?log0"
      by (simp_all add: send_email_def Let_def)
    with Some ne show ?thesis
      by (simp add: error_outcome_def)
  next
    case None
    obtain ra log1 where att: "attach_files w (items attachments) ?st0 ?log0 = (ra, log1)"
      by (cases "attach_files w (items attachments) ?st0 ?log0")
    from attach_files_log [OF att] obtain evs1 where evs1: "log1 = ?log0 @ evs1"
      "set evs1 \<subseteq> IsFile ` set (items attachments) \<union> ReadFile ` set (items attachments)"
      by blast
    show ?thesis
    proof (cases ra)
      case (Inl e)
      with assms None att have res: "r = error_outcome to_email e" "log' = log1"
        by (simp_all add: send_email_def attach_files_guard Let_def)
      have "\<not> ?readable"
      proof
        assume ?readable
        from attach_files_total [OF this, of ?st0 ?log0] att Inl show False
          by simp
      qed
      have nosend: "SmtpSendmail sender rcpts msg \<notin> set (drop (length log) log')"
        for sender rcpts msg
        using res(2) evs1 by auto
      have "status r \<noteq> lit ''success''" "missing r = None"
        using res(1) ne by (simp_all add: error_outcome_def)
      with \<open>\<not> ?readable\<close> nosend show ?thesis
        by blast
    next
      case (Inr st')
      from attach_files_checks [OF att [unfolded Inr]] obtain evs fps where c:
        "log1 = ?log0 @ evs" "checked_paths evs = items attachments"
        "set evs \<subseteq> IsFile ` set (items attachments) \<union> ReadFile ` set (items attachments)"
        "st' = ([TextPart body (lit ''plain'')] @ fps,
                [] @ map (path_basename w) (passed_checks w ?log0 evs),
                [] @ failed_checks w ?log0 evs)"
        "map file_name_of fps
           = map (\<lambda>p. Some (path_basename w p)) (passed_checks w ?log0 evs)"
        by blast
      let ?msg = "\<lparr>headers = build_headers cfg to_email subject cc,
                   parts = TextPart body (lit ''plain'') # fps\<rparr>"
      obtain r2 log2 where ses: "smtp_session cfg w to_email cc bcc ?msg log1 = (r2, log2)"
        by (cases "smtp_session cfg w to_email cc bcc ?msg log1")
      from smtp_session_connects [of cfg w to_email cc bcc ?msg log1] ses
      obtain evs2 where evs2:
        "log2 = log1 @ SmtpConnect (SMTP_SERVER cfg) (SMTP_PORT cfg) # evs2"
        by auto
      from smtp_session_log [OF ses] evs2 have sub:
        "set evs2 \<subseteq> {SmtpConnect (SMTP_SERVER cfg) (SMTP_PORT cfg), SmtpStartTLS,
                      SmtpLogin (SMTP_EMAIL cfg) (SMTP_PASSWORD cfg),
                      SmtpSendmail (SMTP_EMAIL cfg) (envelope to_email cc bcc) ?msg, SmtpQuit}"
        by auto
      have res: "log' = log2"
        "r = (case r2 of
                Some e \<Rightarrow> error_outcome to_email e
              | None \<Rightarrow>
                  \<lparr>status = lit ''success'',
                   message = success_message w to_email
                               (map (path_basename w) (passed_checks w ?log0 evs))
                               (failed_checks w ?log0 evs),
                   attached = Some (map (path_basename w) (passed_checks w ?log0 evs)),
                   missing = Some (failed_checks w ?log0 evs)\<rparr>)"
        using assms None att Inr c(4) ses
        by (auto simp add: send_email_def attach_files_guard Let_def split: option.splits)
      let ?tail = "SmtpConnect (SMTP_SERVER cfg) (SMTP_PORT cfg) # evs2"
      have new: "drop (length log) log' = SendEmailCall to_email # evs @ ?tail"
        using res(1) c(1) evs2 by simp
      have nochk: "\<forall>p. IsFile p \<notin> set evs2"
        using sub by auto
      have chk: "checked_paths (drop (length log) log') = items attachments"
        "failed_checks w log (drop (length log) log') = failed_checks w ?log0 evs"
        "passed_checks w log (drop (length log) log') = passed_checks w ?log0 evs"
        unfolding new using c(2) no_checks [OF nochk]
        by (simp_all add: checks_append)
      have c1: "status r = lit ''success'' \<longrightarrow>
                  checked_paths (drop (length log) log') = items attachments
                  \<and> missing r = Some (failed_checks w log (drop (length log) log'))"
        using res(2) ne chk by (cases r2) (auto simp add: error_outcome_def)
      have c2: "status r \<noteq> lit ''success'' \<longrightarrow> missing r = None"
        using res(2) by (cases r2) (auto simp add: error_outcome_def)
      have c3: "\<forall>sender rcpts msg.
               SmtpSendmail sender rcpts msg \<in> set (drop (length log) log') \<longrightarrow>
               (\<exists>fps. parts msg = TextPart body (lit ''plain'') # fps
                  \<and> map file_name_of fps
                    = map (\<lambda>p. Some (path_basename w p))
                        (passed_checks w log (drop (length log) log')))"
      proof (intro allI impI)
        fix sender rcpts msg
        assume "SmtpSendmail sender rcpts msg \<in> set (drop (length log) log')"
        with new c(3) sub have "msg = ?msg" by auto
        with c(5) chk(3) show "\<exists>fps. parts msg = TextPart body (lit ''plain'') # fps
                  \<and> map file_name_of fps
                    = map (\<lambda>p. Some (path_basename w p))
                        (passed_checks w log (drop (length log) log'))"
          by auto
      qed
      have c4: "SmtpConnect (SMTP_SERVER cfg) (SMTP_PORT cfg) \<in> set (drop (length log) log')"
        unfolding new by simp
      from c1 c2 c3 c4 show ?thesis by blast
    qed
  qed
qed

lemma demo_missing_outcome:
  "fst (send_email (demo_cfg None) (demo_world gen_down loads_none no_files conn_refused accept)
          (lit ''a@x.com'') (JString (lit ''S'')) (lit ''B'') None None (Some [lit ''/nope''])
          [])
   = error_outcome (lit ''a@x.com'') (LibraryError (lit ''Connection refused''))"
  by (simp add: send_email_def smtp_session_def demo_world_def demo_isfile_def no_files_def
        conn_refused_def Let_def)

theorem missing_list_lost_on_failure:
  "\<not> isfile (demo_world gen_down loads_none no_files conn_refused accept)
       [SendEmailCall (lit ''a@x.com''), IsFile (lit ''/nope'')]
   \<and> status (fst (send_email (demo_cfg None)
                     (demo_world gen_down loads_none no_files conn_refused accept)
                     (lit ''a@x.com'') (JString (lit ''S'')) (lit ''B'') None None
                     (Some [lit ''/nope'']) [])) = lit ''error''
   \<and> missing (fst (send_email (demo_cfg None)
                      (demo_world gen_down loads_none no_files conn_refused accept)
                      (lit ''a@x.com'') (JString (lit ''S'')) (lit ''B'') None None
                      (Some [lit ''/nope'']) [])) = None"
  unfolding demo_missing_outcome
  by (simp add: error_outcome_def demo_world_def demo_isfile_def no_files_def)

lemma demo_one_file_status:
  "status (fst (send_email (demo_cfg None)
                  (demo_world gen_down loads_none one_file accept accept)
                  (lit ''a@x.com'') (JString (lit ''S'')) (lit ''B'') None None
                  (Some [lit ''/app/a.txt'', lit ''/nope'']) [])) = lit ''success''"
  by (simp add: send_email_def smtp_session_def smtp_body_def demo_world_def demo_isfile_def
        demo_read_file_def one_file_def accept_def content_type_def split_ctype_def
        Let_def lit_def)

lemma demo_one_file_checks:
  "failed_checks (demo_world gen_down loads_none one_file accept accept) []
     (snd (send_email (demo_cfg None)
             (demo_world gen_down loads_none one_file accept accept)
             (lit ''a@x.com'') (JString (lit ''S'')) (lit ''B'') None None
             (Some [lit ''/app/a.txt'', lit ''/nope'']) []))
   = [lit ''/nope'']"
  by (simp add: send_email_def smtp_session_def smtp_body_def demo_world_def demo_isfile_def
        demo_read_file_def one_file_def accept_def content_type_def split_ctype_def
        Let_def lit_def)

theorem missing_attachment_never_aborts_witness:
  "\<not> isfile (demo_world gen_down loads_none one_file accept accept)
       [SendEmailCall (lit ''a@x.com''), IsFile (lit ''/app/a.txt''),
        ReadFile (lit ''/app/a.txt''), IsFile (lit ''/nope'')]
   \<and> SmtpConnect (SMTP_SERVER (demo_cfg None)) (SMTP_PORT (demo_cfg None))
       \<in> set (snd (send_email (demo_cfg None)
                     (demo_world gen_down loads_none one_file accept accept)
                     (lit ''a@x.com'') (JString (lit ''S'')) (lit ''B'') None None
                     (Some [lit ''/app/a.txt'', lit ''/nope'']) []))
   \<and> missing (fst (send_email (demo_cfg None)
                      (demo_world gen_down loads_none one_file accept accept)
                      (lit ''a@x.com'') (JString (lit ''S'')) (lit ''B'') None None
                      (Some [lit ''/app/a.txt'', lit ''/nope'']) [])) = Some [lit ''/nope'']"
proof -
  let ?w = "demo_world gen_down loads_none one_file accept accept"
  let ?atts = "Some [lit ''/app/a.txt'', lit ''/nope'']"
  let ?run = "send_email (demo_cfg None) ?w (lit ''a@x.com'') (JString (lit ''S'')) (lit ''B'')
                None None ?atts []"
  have nope: "\<not> isfile ?w [SendEmailCall (lit ''a@x.com''), IsFile (lit ''/app/a.txt''),
                           ReadFile (lit ''/app/a.txt''), IsFile (lit ''/nope'')]"
    by (simp add: demo_world_def demo_isfile_def one_file_def lit_def)
  have text_part: "mime_text ?w (lit ''B'') = None"
    by (simp add: demo_world_def)
  have readable: "\<forall>p \<in> set (items ?atts). \<forall>l. isfile ?w (l @ [IsFile p]) \<longrightarrow>
           (\<exists>mt. split_ctype (content_type ?w p) = Inr mt)
           \<and> (\<exists>d. read_file ?w (l @ [IsFile p, ReadFile p]) = Inr d)"
    by (simp add: demo_world_def demo_isfile_def demo_read_file_def one_file_def
          content_type_def split_ctype_def lit_def)
  have run: "?run = (fst ?run, snd ?run)"
    by simp
  note facts = missing_attachment_never_aborts [OF run]
  have "SmtpConnect (SMTP_SERVER (demo_cfg None)) (SMTP_PORT (demo_cfg None))
          \<in> set (drop (length ([] :: event list)) (snd ?run))"
    using facts [THEN conjunct2, THEN conjunct2, THEN conjunct2] text_part readable
    by blast
  then have connect: "SmtpConnect (SMTP_SERVER (demo_cfg None)) (SMTP_PORT (demo_cfg None))
                        \<in> set (snd ?run)"
    by simp
  have "missing (fst ?run) = Some (failed_checks ?w [] (drop (length ([] :: event list))
                                                          (snd ?run)))"
    using facts [THEN conjunct1] demo_one_file_status by blast
  then have "missing (fst ?run) = Some [lit ''/nope'']"
    by (simp add: demo_one_file_checks)
  with nope connect show ?thesis
    by blast
qed

section \<open>The batch and its report\<close>

lemma contains_prefix: "prefix sub s \<Longrightarrow> contains sub s"
  by (cases s) auto

lemma contains_append_left: "contains sub s \<Longrightarrow> contains sub (a @ s)"
  by (induction a) auto

lemma contains_mid: "contains sub (a @ sub @ b)"
  by (intro contains_append_left contains_prefix) simp

lemma length_padded_names:
  "length (parse_list recipients) \<le> length (padded_names recipients recipient_names)"
  by (simp add: padded_names_def pad_names_eq)

lemma counts_add_up: "success_count results + failed_count results = length results"
  by (simp add: success_count_def failed_count_def)

lemma status_lines_entry:
  "i < length xs \<Longrightarrow>
   \<exists>a b. status_lines names k xs
           = a @ status_entry names (k + i) (fst (xs ! i)) (snd (xs ! i)) @ b"
proof (induction xs arbitrary: k i)
  case Nil
  then show ?case by simp
next
  case (Cons x xs)
  obtain recipient result where x: "x = (recipient, result)" by (cases x)
  show ?case
  proof (cases i)
    case 0
    with x show ?thesis
      by (intro exI [of _ "[]"] exI [of _ "status_lines names (Suc k) xs"]) simp
  next
    case (Suc j)
    with Cons.prems have "j < length xs" by simp
    from Cons.IH [OF this, of "Suc k"] obtain a b where
      "status_lines names (Suc k) xs
         = a @ status_entry names (Suc k + j) (fst (xs ! j)) (snd (xs ! j)) @ b"
      by blast
    with x Suc show ?thesis
      by (intro exI [of _ "status_entry names k recipient result @ a"] exI [of _ b]) simp
  qed
qed

text \<open>What the enhancer returns when the parser yields neither an array nor a string.\<close>

lemma all_keys_in_True:
  "all_keys_in ks (JObject kvs) = Inr True \<Longrightarrow> set ks \<subseteq> fst ` set kvs"
  by (induction ks) (auto split: if_splits)

lemma all_keys_in_scalar:
  "\<forall>kvs. v \<noteq> JObject kvs \<Longrightarrow> \<forall>xs. v \<noteq> JArray xs \<Longrightarrow> \<forall>s. v \<noteq> JString s \<Longrightarrow>
   all_keys_in required_keys v \<noteq> Inr True"
  by (cases v) (auto simp add: required_keys_def)

lemma parse_response_object:
  assumes "\<forall>t. (\<forall>xs. json_loads w t \<noteq> Inr (JArray xs)) \<and> (\<forall>s. json_loads w t \<noteq> Inr (JString s))"
    and "parse_response w raw = Inr result"
  shows "\<exists>kvs. result = JObject kvs \<and> set required_keys \<subseteq> fst ` set kvs"
proof -
  from assms(2) obtain jtext where t: "json_loads w jtext = Inr result"
    "all_keys_in required_keys result = Inr True"
    by (auto simp add: parse_response_def split: sum.splits if_splits)
  from t(1) assms(1) have "(\<forall>xs. result \<noteq> JArray xs) \<and> (\<forall>s. result \<noteq> JString s)"
    by metis
  with t(2) all_keys_in_scalar [of result] obtain kvs where "result = JObject kvs"
    by blast
  with t(2) all_keys_in_True show ?thesis by blast
qed

lemma fallback_keys:
  "\<exists>kvs. fallback_email main_idea = JObject kvs \<and> set required_keys \<subseteq> fst ` set kvs"
  by (simp add: fallback_email_def required_keys_def)

lemma enhance_object:
  assumes "\<forall>t. (\<forall>xs. json_loads w t \<noteq> Inr (JArray xs)) \<and> (\<forall>s. json_loads w t \<noteq> Inr (JString s))"
  shows "\<exists>kvs. fst (enhance_email_with_ai cfg w log main_idea tone recipient_name) = JObject kvs
           \<and> set required_keys \<subseteq> fst ` set kvs"
proof (cases "fst (enhance_try cfg w log main_idea tone recipient_name)")
  case (Inl e)
  then have "fst (enhance_email_with_ai cfg w log main_idea tone recipient_name)
               = fallback_email main_idea"
    by (cases "enhance_try cfg w log main_idea tone recipient_name")
       (simp add: enhance_email_with_ai_def)
  with fallback_keys [of main_idea] show ?thesis by simp
next
  case (Inr result)
  then have r: "fst (enhance_email_with_ai cfg w log main_idea tone recipient_name) = result"
    by (cases "enhance_try cfg w log main_idea tone recipient_name")
       (simp add: enhance_email_with_ai_def)
  from Inr obtain raw where "parse_response w raw = Inr result"
    by (auto simp add: enhance_try_def Let_def split: if_splits sum.splits)
  from parse_response_object [OF assms this] r show ?thesis by simp
qed

lemma enhanced_fields_object:
  assumes "set required_keys \<subseteq> fst ` set kvs"
  shows "\<exists>v. enhanced_fields w (JObject kvs) = Inr v"
proof -
  have "\<And>k. k \<in> set required_keys \<Longrightarrow> \<exists>v. map_of kvs k = Some v"
    using assms by (metis domD dom_map_of_conv_image_fst subsetD)
  from this [of "lit ''subject''"] this [of "lit ''greeting''"] this [of "lit ''body''"]
    this [of "lit ''closing''"]
  show ?thesis
    by (auto simp add: required_keys_def enhanced_fields_def)
qed

lemma send_loop_calls_all:
  assumes "\<forall>t. (\<forall>xs. json_loads w t \<noteq> Inr (JArray xs)) \<and> (\<forall>s. json_loads w t \<noteq> Inr (JString s))"
    and "send_loop cfg w main_idea tone cc_list bcc_list attachment_list pairs log = (rs, log')"
  shows "send_calls (drop (length log) log') = map fst pairs"
  using assms(2)
proof (induction pairs arbitrary: log rs log')
  case Nil
  then show ?case by simp
next
  case (Cons pair rest)
  obtain recipient recipient_name where pair: "pair = (recipient, recipient_name)"
    by (cases pair)
  obtain res content log1 where pr:
    "process_recipient cfg w main_idea tone cc_list bcc_list attachment_list recipient
       recipient_name log = ((res, content), log1)"
    by (cases "process_recipient cfg w main_idea tone cc_list bcc_list attachment_list recipient
                 recipient_name log") auto
  obtain rs2 log2 where sl:
    "send_loop cfg w main_idea tone cc_list bcc_list attachment_list rest log1 = (rs2, log2)"
    by (cases "send_loop cfg w main_idea tone cc_list bcc_list attachment_list rest log1")
  from Cons.prems pair pr sl have eq: "log' = log2"
    by auto
  have "\<exists>v. enhanced_fields w
               (fst (enhance_email_with_ai cfg w log main_idea tone recipient_name)) = Inr v"
    using enhance_object [OF assms(1), of cfg log main_idea tone recipient_name]
      enhanced_fields_object by metis
  with process_recipient_log [OF pr] obtain evs1 where evs1: "log1 = log @ evs1"
    "send_calls evs1 = [recipient]"
    by blast
  from send_loop_log [OF sl] obtain evs2 where evs2: "log2 = log1 @ evs2"
    by blast
  from Cons.IH [OF sl] evs2 have "send_calls evs2 = map fst rest"
    by simp
  with eq evs1 evs2 pair show ?case
    by (simp add: send_calls_append)
qed


text \<open>
  Once the validations pass, the loop gives every recipient one outcome, in input order,
  whatever happened to the recipients before; the success and failure counts add up to
  the number of recipients; there is at most one send attempt per recipient, in input
  order, and exactly one for every recipient when the JSON parser yields neither an
  array nor a string (the enhanced email is then a dict with the four keys); the report
  shows the three counts; and the status entry of every recipient occurs in the report.
\<close>

lemma batch_outcomes:
  assumes "parse_list recipients \<noteq> []" and "main_idea \<noteq> []"
    and "truthy (SMTP_EMAIL cfg)" and "truthy (SMTP_PASSWORD cfg)"
    and "send_loop cfg w main_idea tone (parse_opt_list cc) (parse_opt_list bcc)
           (parse_attachments w attachments)
           (zip (parse_list recipients) (padded_names recipients recipient_names)) log
         = (rs, log')"
  shows "snd (send_professional_email cfg w main_idea recipients tone cc bcc attachments
                recipient_names log) = log'
         \<and> map (\<lambda>r. c_recipient (snd r)) rs = parse_list recipients
         \<and> success_count (map fst rs) + failed_count (map fst rs)
           = length (parse_list recipients)
         \<and> subseq (send_calls (drop (length log) log')) (parse_list recipients)
         \<and> ((\<forall>t. (\<forall>xs. json_loads w t \<noteq> Inr (JArray xs))
                  \<and> (\<forall>s. json_loads w t \<noteq> Inr (JString s)))
              \<longrightarrow> send_calls (drop (length log) log') = parse_list recipients)
         \<and> contains
              (lit ''Recipients: '' @ dec (length (parse_list recipients)) @ lit '' (''
               @ dec (success_count (map fst rs)) @ lit '' sent, ''
               @ dec (failed_count (map fst rs)) @ lit '' failed)'')
              (fst (send_professional_email cfg w main_idea recipients tone cc bcc attachments
                      recipient_names log))
         \<and> (\<forall>i < length (parse_list recipients).
               contains
                 (status_entry (padded_names recipients recipient_names) i
                    (parse_list recipients ! i) (fst (rs ! i)))
                 (fst (send_professional_email cfg w main_idea recipients tone cc bcc
                         attachments recipient_names log)))"
proof -
  let ?rl = "parse_list recipients"
  let ?names = "padded_names recipients recipient_names"
  let ?report = "format_report w ?rl ?names (parse_opt_list cc) (parse_opt_list bcc)
                   (map fst rs) (map snd rs)"
  have run: "send_professional_email cfg w main_idea recipients tone cc bcc attachments
               recipient_names log = (?report, log')"
    using assms by (simp add: send_professional_email_def Let_def)
  have fsts: "map fst (zip ?rl ?names) = ?rl"
    using length_padded_names [of recipients recipient_names] by (simp add: map_fst_zip_take)
  from send_loop_log [OF assms(5)] obtain evs where evs: "log' = log @ evs"
    "subseq (send_calls evs) (map fst (zip ?rl ?names))"
    "map (\<lambda>r. c_recipient (snd r)) rs = map fst (zip ?rl ?names)"
    by (auto simp add: comp_def)
  have c2: "map (\<lambda>r. c_recipient (snd r)) rs = ?rl"
    using evs(3) fsts by simp
  then have len: "length rs = length ?rl"
    by (metis length_map)
  have c3: "success_count (map fst rs) + failed_count (map fst rs) = length ?rl"
    using len by (simp add: counts_add_up)
  have c4: "subseq (send_calls (drop (length log) log')) ?rl"
    using evs(1,2) fsts by simp
  have c5: "(\<forall>t. (\<forall>xs. json_loads w t \<noteq> Inr (JArray xs))
                  \<and> (\<forall>s. json_loads w t \<noteq> Inr (JString s)))
              \<longrightarrow> send_calls (drop (length log) log') = ?rl"
    using send_loop_calls_all [OF _ assms(5)] fsts by auto
  let ?counts = "lit ''Recipients: '' @ dec (length ?rl) @ lit '' (''
               @ dec (success_count (map fst rs)) @ lit '' sent, ''
               @ dec (failed_count (map fst rs)) @ lit '' failed)''"
  have "\<exists>a b. ?report = a @ ?counts @ b"
    by (intro exI [of _ "report_header @ nl @ nl @ lit ''Subject: ''
                          @ fmt w (fst (first_content (map snd rs))) @ nl"]
              exI [of _ "nl @ nl @ lit ''--- Sample Email Content (first recipient) ---'' @ nl
                          @ snd (first_content (map snd rs)) @ nl
                          @ lit ''--------------------'' @ nl @ nl
                          @ lit ''Delivery Status:'' @ nl
                          @ status_lines ?names 0 (zip ?rl (map fst rs))
                          @ report_tail w (parse_opt_list cc) (parse_opt_list bcc)
                              (map fst rs)"])
       (simp add: format_report_def report_head_def)
  then have c6: "contains ?counts ?report"
    by (metis contains_mid)
  have c7: "\<forall>i < length ?rl.
              contains (status_entry ?names i (?rl ! i) (fst (rs ! i))) ?report"
  proof (intro allI impI)
    fix i
    assume i: "i < length ?rl"
    with len have "i < length (zip ?rl (map fst rs))" by simp
    from status_lines_entry [OF this, of ?names 0] i len obtain a b where
      "status_lines ?names 0 (zip ?rl (map fst rs))
         = a @ status_entry ?names i (?rl ! i) (fst (rs ! i)) @ b"
      by auto
    then have "?report
                 = (report_head w ?rl (map fst rs) (map snd rs) @ a)
                   @ status_entry ?names i (?rl ! i) (fst (rs ! i))
                   @ (b @ report_tail w (parse_opt_list cc) (parse_opt_list bcc) (map fst rs))"
      by (simp add: format_report_def)
    then show "contains (status_entry ?names i (?rl ! i) (fst (rs ! i))) ?report"
      by (metis contains_mid)
  qed
  show ?thesis
    unfolding run using c2 c3 c4 c5 c6 c7 by simp
qed


lemma parse_one_recipient: "parse_list (lit ''a@x.com'') = [lit ''a@x.com'']"
  by (simp add: parse_list_def py_split_def py_strip_def py_isspace_def lit_def)

lemma demo_array_log:
  "snd (send_professional_email (demo_cfg (Some (lit ''key'')))
          (demo_world gen_array loads_array no_files accept accept)
          (lit ''hi'') (lit ''a@x.com'') (lit ''professional'') [] [] [] [] [])
   = [GenerateContent (lit ''gemini-2.5-flash'')
        (build_prompt (lit ''hi'') (lit ''professional'') [])]"
  by (simp add: send_professional_email_def parse_one_recipient padded_names_def
        pad_names.simps process_recipient_def demo_array_enhanced enhanced_fields_def Let_def)
     (simp add: demo_cfg_def lit_def)

lemma demo_batch_statuses:
  "map (\<lambda>r. status (fst r))
     (fst (send_loop (demo_cfg None)
             (demo_world gen_down loads_none no_files accept (refuse (lit ''b@x.com'')))
             (lit ''hi'') (lit ''professional'') None None None
             [(lit ''a@x.com'', []), (lit ''b@x.com'', [])] []))
   = [lit ''success'', lit ''error'']"
  by (simp add: process_recipient_def enhance_email_with_ai_def enhance_try_def
        fallback_email_def enhanced_fields_def send_email_def smtp_session_def smtp_body_def
        envelope_def error_outcome_def demo_world_def demo_cfg_def accept_def refuse_def
        Let_def lit_def)

lemma demo_batch_two_recipients:
  "parse_list (lit ''a@x.com, b@x.com'') \<noteq> []
   \<and> send_calls
        (snd (send_professional_email (demo_cfg None)
                (demo_world gen_down loads_none no_files accept (refuse (lit ''b@x.com'')))
                (lit ''hi'') (lit ''a@x.com, b@x.com'') (lit ''professional'') [] [] [] [] []))
     = [lit ''a@x.com'', lit ''b@x.com'']
   \<and> contains (lit ''Recipients: 2 (1 sent, 1 failed)'')
        (fst (send_professional_email (demo_cfg None)
                (demo_world gen_down loads_none no_files accept (refuse (lit ''b@x.com'')))
                (lit ''hi'') (lit ''a@x.com, b@x.com'') (lit ''professional'') [] [] [] [] []))"
proof -
  let ?cfg = "demo_cfg None"
  let ?w = "demo_world gen_down loads_none no_files accept (refuse (lit ''b@x.com''))"
  let ?loop = "send_loop ?cfg ?w (lit ''hi'') (lit ''professional'') (parse_opt_list [])
                 (parse_opt_list []) (parse_attachments ?w [])
                 (zip (parse_list (lit ''a@x.com, b@x.com''))
                    (padded_names (lit ''a@x.com, b@x.com'') [])) []"
  have v1: "parse_list (lit ''a@x.com, b@x.com'') \<noteq> []"
    by (simp add: parse_two_recipients)
  have v2: "lit ''hi'' \<noteq> []"
    by (simp add: lit_def)
  have v3: "truthy (SMTP_EMAIL ?cfg)" "truthy (SMTP_PASSWORD ?cfg)"
    by (simp_all add: demo_cfg_def lit_def)
  have pairs: "zip (parse_list (lit ''a@x.com, b@x.com''))
                 (padded_names (lit ''a@x.com, b@x.com'') [])
               = [(lit ''a@x.com'', []), (lit ''b@x.com'', [])]"
    by (simp add: parse_two_recipients padded_names_def pad_names_eq)
  have args: "parse_opt_list [] = None" "parse_attachments ?w [] = None"
    by (simp_all add: parse_opt_list_def parse_attachments_def)
  have st: "map (\<lambda>r. status (fst r)) (fst ?loop) = [lit ''success'', lit ''error'']"
    unfolding pairs args by (rule demo_batch_statuses)
  have ne: "lit ''error'' \<noteq> lit ''success''"
    by (simp add: lit_def)
  have "success_count (map fst (fst ?loop))
          = length (filter (\<lambda>s. s = lit ''success'') (map (\<lambda>r. status (fst r)) (fst ?loop)))"
    by (simp add: success_count_def filter_map comp_def)
  then have sc: "success_count (map fst (fst ?loop)) = 1"
    unfolding st using ne by simp
  have "length (fst ?loop) = length (map (\<lambda>r. status (fst r)) (fst ?loop))"
    by simp
  then have len: "length (fst ?loop) = 2"
    unfolding st by simp
  have fc: "failed_count (map fst (fst ?loop)) = 1"
    using sc len by (simp add: failed_count_def)
  have parser: "\<forall>t. (\<forall>xs. json_loads ?w t \<noteq> Inr (JArray xs))
                  \<and> (\<forall>s. json_loads ?w t \<noteq> Inr (JString s))"
    by (simp add: demo_world_def loads_none_def)
  have loop: "?loop = (fst ?loop, snd ?loop)"
    by simp
  have counts: "lit ''Recipients: '' @ dec 2 @ lit '' ('' @ dec 1 @ lit '' sent, '' @ dec 1
               @ lit '' failed)'' = lit ''Recipients: 2 (1 sent, 1 failed)''"
    by (simp add: dec.simps lit_def)
  have l2: "length (parse_list (lit ''a@x.com, b@x.com'')) = 2"
    by (simp add: parse_two_recipients)
  note facts = batch_outcomes [OF v1 v2 v3 loop]
  have same_log: "snd (send_professional_email ?cfg ?w (lit ''hi'') (lit ''a@x.com, b@x.com'')
                        (lit ''professional'') [] [] [] [] []) = snd ?loop"
    using facts by blast
  have "send_calls (drop (length ([] :: event list)) (snd ?loop))
          = parse_list (lit ''a@x.com, b@x.com'')"
    using facts parser by blast
  then have calls: "send_calls (snd ?loop) = [lit ''a@x.com'', lit ''b@x.com'']"
    by (simp add: parse_two_recipients)
  have "contains
          (lit ''Recipients: '' @ dec (length (parse_list (lit ''a@x.com, b@x.com'')))
           @ lit '' ('' @ dec (success_count (map fst (fst ?loop))) @ lit '' sent, ''
           @ dec (failed_count (map fst (fst ?loop))) @ lit '' failed)'')
          (fst (send_professional_email ?cfg ?w (lit ''hi'') (lit ''a@x.com, b@x.com'')
                  (lit ''professional'') [] [] [] [] []))"
    using facts by blast
  then have shown: "contains (lit ''Recipients: 2 (1 sent, 1 failed)'')
          (fst (send_professional_email ?cfg ?w (lit ''hi'') (lit ''a@x.com, b@x.com'')
                  (lit ''professional'') [] [] [] [] []))"
    unfolding l2 sc fc counts .
  from v1 calls shown show ?thesis
    unfolding same_log by blast
qed

text \<open>
  C4 fails on the code: with the API key set and a reply that is the JSON array
  \<open>["subject", "greeting", "body", "closing"]\<close>, the validations pass, the model is
  called, and the only recipient \<open>a@x.com\<close> gets no send attempt: the call adds nothing
  but the request to the model to the log.
\<close>

theorem no_send_attempt_for_array_reply:
  "parse_list (lit ''a@x.com'') = [lit ''a@x.com'']
   \<and> snd (send_professional_email (demo_cfg (Some (lit ''key'')))
           (demo_world gen_array loads_array no_files accept accept)
           (lit ''hi'') (lit ''a@x.com'') (lit ''professional'') [] [] [] [] [])
     = [GenerateContent (lit ''gemini-2.5-flash'')
          (build_prompt (lit ''hi'') (lit ''professional'') [])]
   \<and> send_calls
        (snd (send_professional_email (demo_cfg (Some (lit ''key'')))
                (demo_world gen_array loads_array no_files accept accept)
                (lit ''hi'') (lit ''a@x.com'') (lit ''professional'') [] [] [] [] []))
     = []"
  unfolding demo_array_log by (simp add: parse_one_recipient)

theorem no_send_attempt_for_array_reply_witness:
  "send_calls
     (snd (send_professional_email (demo_cfg (Some (lit ''key'')))
             (demo_world gen_array loads_array no_files accept accept)
             (lit ''hi'') (lit ''a@x.com'') (lit ''professional'') [] [] [] [] []))
   \<noteq> parse_list (lit ''a@x.com'')"
  using no_send_attempt_for_array_reply by simp

section \<open>The header and the status lines of the report\<close>

lemma demo_single_loop:
  "fst (send_loop (demo_cfg None) (demo_world gen_down loads_none no_files accept accept)
          (lit ''hi'') (lit ''professional'') None None None [(lit ''a@x.com'', [])] [])
   = [(\<lparr>status = lit ''success'', message = lit ''Email sent to '' @ lit ''a@x.com'',
         attached = Some [], missing = Some []\<rparr>,
       \<lparr>c_recipient = lit ''a@x.com'',
        c_subject = JString (lit ''Update: '' @ take 50 (lit ''hi'')),
        c_body = full_body_of (demo_cfg None)
                   (demo_world gen_down loads_none no_files accept accept)
                   (JString (lit ''Hello,''))
                   (JString (lit ''I wanted to reach out regarding: '' @ lit ''hi'' @ nl @ nl
                             @ lit ''Please let me know if you have any questions.''))
                   (JString (lit ''Best regards''))\<rparr>)]"
  by (simp add: process_recipient_def enhance_email_with_ai_def enhance_try_def
        fallback_fields send_email_def smtp_session_def smtp_body_def
        success_message_def demo_world_def demo_cfg_def accept_def Let_def)


lemma demo_single_run:
  "fst (send_professional_email (demo_cfg None)
          (demo_world gen_down loads_none no_files accept accept)
          (lit ''hi'') (lit ''a@x.com'') (lit ''professional'') [] [] [] [] [])
   = format_report (demo_world gen_down loads_none no_files accept accept) [lit ''a@x.com'']
       [[]] None None
       (map fst (fst (send_loop (demo_cfg None)
                        (demo_world gen_down loads_none no_files accept accept)
                        (lit ''hi'') (lit ''professional'') None None None
                        [(lit ''a@x.com'', [])] [])))
       (map snd (fst (send_loop (demo_cfg None)
                        (demo_world gen_down loads_none no_files accept accept)
                        (lit ''hi'') (lit ''professional'') None None None
                        [(lit ''a@x.com'', [])] [])))"
proof -
  have v: "lit ''hi'' \<noteq> []" "truthy (SMTP_EMAIL (demo_cfg None))"
    "truthy (SMTP_PASSWORD (demo_cfg None))"
    by (simp_all add: demo_cfg_def lit_def)
  have n: "padded_names (lit ''a@x.com'') [] = [[]]"
    by (simp add: padded_names_def parse_one_recipient pad_names_eq)
  show ?thesis
    using v
    by (simp add: send_professional_email_def parse_one_recipient n parse_opt_list_def
          parse_attachments_def Let_def case_prod_beta)
qed

lemma demo_status_entry:
  "status_entry [[]] 0 (lit ''a@x.com'')
     \<lparr>status = lit ''success'', message = lit ''Email sent to '' @ lit ''a@x.com'',
      attached = Some [], missing = Some []\<rparr>
   = nl @ check_mark @ lit '' a@x.com: Email sent to a@x.com''
     @ check_mark @ lit '' a@x.com: Email sent to a@x.com'' @ nl"
  by (simp add: status_entry_def) (simp add: lit_def)

lemma demo_report_tail:
  "report_tail (demo_world gen_down loads_none no_files accept accept) None None
     [\<lparr>status = lit ''success'', message = lit ''Email sent to '' @ lit ''a@x.com'',
       attached = Some [], missing = Some []\<rparr>] = []"
  by (simp add: report_tail_def collect_def demo_world_def)

text \<open>
  C9 fails on the code: for the single recipient \<open>a@x.com\<close> and a delivery that
  succeeds, the report ends, after its head, with one line that holds the status entry
  of the recipient twice.
\<close>

theorem status_line_emitted_twice:
  "fst (send_professional_email (demo_cfg None)
          (demo_world gen_down loads_none no_files accept accept)
          (lit ''hi'') (lit ''a@x.com'') (lit ''professional'') [] [] [] [] [])
   = report_head (demo_world gen_down loads_none no_files accept accept) [lit ''a@x.com'']
       (map fst (fst (send_loop (demo_cfg None)
                        (demo_world gen_down loads_none no_files accept accept)
                        (lit ''hi'') (lit ''professional'') None None None
                        [(lit ''a@x.com'', [])] [])))
       (map snd (fst (send_loop (demo_cfg None)
                        (demo_world gen_down loads_none no_files accept accept)
                        (lit ''hi'') (lit ''professional'') None None None
                        [(lit ''a@x.com'', [])] [])))
     @ nl @ check_mark @ lit '' a@x.com: Email sent to a@x.com''
     @ check_mark @ lit '' a@x.com: Email sent to a@x.com'' @ nl"
  unfolding demo_single_run format_report_def demo_single_loop
  by (simp add: demo_status_entry demo_report_tail)


theorem status_line_emitted_twice_witness:
  "fst (send_professional_email (demo_cfg None)
          (demo_world gen_down loads_none no_files accept accept)
          (lit ''hi'') (lit ''a@x.com'') (lit ''professional'') [] [] [] [] [])
   \<noteq> report_head (demo_world gen_down loads_none no_files accept accept) [lit ''a@x.com'']
       (map fst (fst (send_loop (demo_cfg None)
                        (demo_world gen_down loads_none no_files accept accept)
                        (lit ''hi'') (lit ''professional'') None None None
                        [(lit ''a@x.com'', [])] [])))
       (map snd (fst (send_loop (demo_cfg None)
                        (demo_world gen_down loads_none no_files accept accept)
                        (lit ''hi'') (lit ''professional'') None None None
                        [(lit ''a@x.com'', [])] [])))
     @ nl @ check_mark @ lit '' a@x.com: Email sent to a@x.com'' @ nl"
  unfolding status_line_emitted_twice
  by (simp add: nl_def check_mark_def lit_def)

text \<open>
  Once the three validations pass, the report of \<open>server.py\<close> begins with the header
  line, whatever the outcomes, also when every delivery failed. \<open>main.py\<close> returns the
  one line \<open>Error enhancing email: ...\<close> when the four fields cannot be read from the
  enhanced email, and otherwise a report whose first line is the marker its source file
  holds, followed by \<open> Email Sent Successfully\<close>.
\<close>

lemma report_first_line:
  assumes "parse_list recipients \<noteq> []" and "main_idea \<noteq> []"
    and "truthy (SMTP_EMAIL cfg)" and "truthy (SMTP_PASSWORD cfg)"
  shows "prefix (report_header @ nl)
           (fst (send_professional_email cfg w main_idea recipients tone cc bcc attachments
                   recipient_names log))
         \<and> (case enhanced_fields w (fst (enhance_email_with_ai_main w log main_idea tone)) of
               Inl e \<Rightarrow>
                 fst (send_professional_email_main cfg w main_idea recipients tone cc bcc log)
                   = lit ''Error enhancing email: '' @ str_exn e
             | Inr v \<Rightarrow>
                 prefix (check_mark_main @ lit '' Email Sent Successfully'' @ nl)
                   (fst (send_professional_email_main cfg w main_idea recipients tone
                           cc bcc log)))"
proof
  show "prefix (report_header @ nl)
           (fst (send_professional_email cfg w main_idea recipients tone cc bcc attachments
                   recipient_names log))"
    using assms
    by (simp add: send_professional_email_def Let_def case_prod_beta format_report_def
          report_head_def)
next
  show "case enhanced_fields w (fst (enhance_email_with_ai_main w log main_idea tone)) of
               Inl e \<Rightarrow>
                 fst (send_professional_email_main cfg w main_idea recipients tone cc bcc log)
                   = lit ''Error enhancing email: '' @ str_exn e
             | Inr v \<Rightarrow>
                 prefix (check_mark_main @ lit '' Email Sent Successfully'' @ nl)
                   (fst (send_professional_email_main cfg w main_idea recipients tone
                           cc bcc log))"
  proof (cases "enhanced_fields w (fst (enhance_email_with_ai_main w log main_idea tone))")
    case (Inl e)
    with assms show ?thesis
      by (simp add: send_professional_email_main_def Let_def case_prod_beta)
  next
    case (Inr v)
    have "prefix (check_mark_main @ lit '' Email Sent Successfully'' @ nl)
            (fst (send_professional_email_main cfg w main_idea recipients tone cc bcc log))"
      using assms Inr
      by (simp add: send_professional_email_main_def Let_def case_prod_beta
            format_report_main_def)
    then show ?thesis
      using Inr by simp
  qed
qed


lemma demo_all_failed:
  "map (\<lambda>r. status (fst r))
     (fst (send_loop (demo_cfg None)
             (demo_world gen_down loads_none no_files conn_refused accept)
             (lit ''hi'') (lit ''professional'') None None None [(lit ''a@x.com'', [])] []))
   = [lit ''error'']"
  by (simp add: process_recipient_def enhance_email_with_ai_def enhance_try_def
        fallback_fields send_email_def smtp_session_def error_outcome_def
        demo_world_def demo_cfg_def conn_refused_def Let_def)

lemma demo_all_failed_header:
  "map (\<lambda>r. status (fst r))
     (fst (send_loop (demo_cfg None)
             (demo_world gen_down loads_none no_files conn_refused accept)
             (lit ''hi'') (lit ''professional'') None None None [(lit ''a@x.com'', [])] []))
   = [lit ''error'']
   \<and> prefix (report_header @ nl)
        (fst (send_professional_email (demo_cfg None)
                (demo_world gen_down loads_none no_files conn_refused accept)
                (lit ''hi'') (lit ''a@x.com'') (lit ''professional'') [] [] [] [] []))"
proof -
  have r: "parse_list (lit ''a@x.com'') \<noteq> []"
    by (simp add: parse_one_recipient)
  have v: "lit ''hi'' \<noteq> []"
    "truthy (SMTP_EMAIL (demo_cfg None))" "truthy (SMTP_PASSWORD (demo_cfg None))"
    by (simp_all add: demo_cfg_def lit_def)
  from report_first_line [OF r v] demo_all_failed show ?thesis
    by blast
qed

lemma demo_array_report_main:
  "fst (send_professional_email_main (demo_cfg (Some (lit ''key'')))
          (demo_world gen_array loads_array no_files accept accept)
          (lit ''hi'') (lit ''a@x.com'') (lit ''professional'') [] [] [])
   = lit ''Error enhancing email: list indices must be integers or slices, not str''"
proof -
  have v: "lit ''hi'' \<noteq> []" "truthy (SMTP_EMAIL (demo_cfg (Some (lit ''key''))))"
    "truthy (SMTP_PASSWORD (demo_cfg (Some (lit ''key''))))"
    by (simp_all add: demo_cfg_def lit_def)
  have m: "subscript_msg (demo_world gen_array loads_array no_files accept accept)
             (JArray [JString (lit ''subject''), JString (lit ''greeting''),
                      JString (lit ''body''), JString (lit ''closing'')])
           = lit ''list indices must be integers or slices, not str''"
    by (simp add: demo_world_def cpython_subscript_msg_def)
  have "fst (send_professional_email_main (demo_cfg (Some (lit ''key'')))
          (demo_world gen_array loads_array no_files accept accept)
          (lit ''hi'') (lit ''a@x.com'') (lit ''professional'') [] [] [])
        = lit ''Error enhancing email: ''
          @ lit ''list indices must be integers or slices, not str''"
    using v
    by (simp add: send_professional_email_main_def parse_one_recipient Let_def
          demo_array_enhanced_main enhanced_fields_def m)
  then show ?thesis
    by (simp add: lit_def)
qed

lemma demo_report_main:
  "prefix (check_mark_main @ lit '' Email Sent Successfully'' @ nl)
     (fst (send_professional_email_main (demo_cfg None)
             (demo_world gen_down loads_none no_files accept accept)
             (lit ''hi'') (lit ''a@x.com'') (lit ''professional'') [] [] []))"
proof -
  have r: "parse_list (lit ''a@x.com'') \<noteq> []"
    by (simp add: parse_one_recipient)
  have v: "lit ''hi'' \<noteq> []"
    "truthy (SMTP_EMAIL (demo_cfg None))" "truthy (SMTP_PASSWORD (demo_cfg None))"
    by (simp_all add: demo_cfg_def lit_def)
  have f: "\<exists>v. enhanced_fields (demo_world gen_down loads_none no_files accept accept)
                 (fst (enhance_email_with_ai_main
                         (demo_world gen_down loads_none no_files accept accept) []
                         (lit ''hi'') (lit ''professional''))) = Inr v"
    by (simp add: enhance_email_with_ai_main_def enhance_try_main_def fallback_fields
          demo_world_def gen_down_def)
  from report_first_line
         [where w = "demo_world gen_down loads_none no_files accept accept" and log = "[]"
            and tone = "lit ''professional''" and cc = "[]" and bcc = "[]",
          OF r v, THEN conjunct2] f
  show ?thesis
    by auto
qed

text \<open>
  C10 fails on the code, in \<open>main.py\<close>. Its header literal holds the three characters
  U+00E2, U+0153, U+201C where \<open>server.py\<close> has the check mark, so that no report of
  \<open>main.py\<close> begins with the check mark of the header line, not even that of a single
  delivery that succeeds. And with the API key set and a reply that is the JSON array
  \<open>["subject", "greeting", "body", "closing"]\<close>, the validations pass and \<open>main.py\<close>
  returns the one line \<open>Error enhancing email: ...\<close> and no report at all.
\<close>

theorem header_absent_on_enhancement_error:
  "fst (send_professional_email_main (demo_cfg (Some (lit ''key'')))
          (demo_world gen_array loads_array no_files accept accept)
          (lit ''hi'') (lit ''a@x.com'') (lit ''professional'') [] [] [])
   = lit ''Error enhancing email: list indices must be integers or slices, not str''
   \<and> \<not> prefix report_header
         (fst (send_professional_email_main (demo_cfg (Some (lit ''key'')))
                 (demo_world gen_array loads_array no_files accept accept)
                 (lit ''hi'') (lit ''a@x.com'') (lit ''professional'') [] [] []))
   \<and> prefix (check_mark_main @ lit '' Email Sent Successfully'' @ nl)
        (fst (send_professional_email_main (demo_cfg None)
                (demo_world gen_down loads_none no_files accept accept)
                (lit ''hi'') (lit ''a@x.com'') (lit ''professional'') [] [] []))
   \<and> \<not> prefix report_header
         (fst (send_professional_email_main (demo_cfg None)
                 (demo_world gen_down loads_none no_files accept accept)
                 (lit ''hi'') (lit ''a@x.com'') (lit ''professional'') [] [] []))"
proof -
  have a: "\<not> prefix report_header
               (lit ''Error enhancing email: list indices must be integers or slices, not str'')"
    by (simp add: report_header_def check_mark_def lit_def)
  have other: "\<not> prefix report_header
                   (check_mark_main @ lit '' Email Sent Successfully'' @ nl @ rest)" for rest
    by (simp add: report_header_def check_mark_def check_mark_main_def lit_def)
  from demo_report_main obtain rest where
    "fst (send_professional_email_main (demo_cfg None)
            (demo_world gen_down loads_none no_files accept accept)
            (lit ''hi'') (lit ''a@x.com'') (lit ''professional'') [] [] [])
     = check_mark_main @ lit '' Email Sent Successfully'' @ nl @ rest"
    by (auto simp add: prefix_def)
  then have b: "\<not> prefix report_header
         (fst (send_professional_email_main (demo_cfg None)
                 (demo_world gen_down loads_none no_files accept accept)
                 (lit ''hi'') (lit ''a@x.com'') (lit ''professional'') [] [] []))"
    using other [of rest] by simp
  from a b demo_report_main show ?thesis
    unfolding demo_array_report_main by simp
qed

theorem header_absent_on_enhancement_error_witness:
  "fst (send_professional_email_main (demo_cfg (Some (lit ''key'')))
          (demo_world gen_array loads_array no_files accept accept)
          (lit ''hi'') (lit ''a@x.com'') (lit ''professional'') [] [] [])
   \<noteq> report_header
   \<and> fst (send_professional_email_main (demo_cfg None)
            (demo_world gen_down loads_none no_files accept accept)
            (lit ''hi'') (lit ''a@x.com'') (lit ''professional'') [] [] [])
     \<noteq> report_header"
  using header_absent_on_enhancement_error by auto

end
